theory Spec2Isabelle
  imports Main "HOL-Library.Sublist" "HOL-Library.Log_Nat" "HOL-Library.Code_Target_Numeral"
begin

section \<open>Strings, byte slices and paths\<close>

text \<open>
  A Go \<^verbatim>\<open>string\<close> and a Go \<^verbatim>\<open>[]byte\<close> are sequences of 8-bit bytes, which is what
  an Isabelle \<open>string\<close> is.  A slice that may be \<^verbatim>\<open>nil\<close> is an \<open>option\<close>, with
  \<open>len\<close> of \<^verbatim>\<open>nil\<close> being 0 as in Go.
\<close>

type_synonym bytes = string

definition len :: "bytes option \<Rightarrow> nat" where
  "len b = (case b of None \<Rightarrow> 0 | Some xs \<Rightarrow> length xs)"

text \<open>\<^verbatim>\<open>strings.HasPrefix(s, p)\<close>, \<^verbatim>\<open>strings.Contains(s, "=")\<close> and
  \<^verbatim>\<open>strings.Join(elems, sep)\<close> of the Go standard library.\<close>

definition strings_HasPrefix :: "string \<Rightarrow> string \<Rightarrow> bool" where
  "strings_HasPrefix s p = prefix p s"

definition strings_ContainsEq :: "string \<Rightarrow> bool" where
  "strings_ContainsEq s = (CHR ''='' \<in> set s)"

fun strings_Join :: "string list \<Rightarrow> string \<Rightarrow> string" where
  "strings_Join [] sep = []"
| "strings_Join [e] sep = e"
| "strings_Join (e # es) sep = e @ sep @ strings_Join es sep"

text \<open>The decimal rendering of \<^verbatim>\<open>%d\<close>.\<close>

definition digit_char :: "nat \<Rightarrow> char" where
  "digit_char d = char_of (48 + d)"

fun show_nat :: "nat \<Rightarrow> string" where
  "show_nat n = (if n < 10 then [digit_char n] else show_nat (n div 10) @ [digit_char (n mod 10)])"

declare show_nat.simps [simp del]

definition show_int :: "int \<Rightarrow> string" where
  "show_int i = (if i < 0 then CHR ''-'' # show_nat (nat (- i)) else show_nat (nat i))"

text \<open>
  Package \<^verbatim>\<open>path\<close> of the Go standard library: \<^verbatim>\<open>path.IsAbs\<close>, \<^verbatim>\<open>path.Clean\<close>
  (element by element: empty and \<^verbatim>\<open>.\<close> elements are dropped, \<^verbatim>\<open>..\<close> removes the
  element before it when there is one to remove) and \<^verbatim>\<open>path.Join\<close>.
\<close>

definition path_IsAbs :: "string \<Rightarrow> bool" where
  "path_IsAbs p = (case p of [] \<Rightarrow> False | c # _ \<Rightarrow> c = CHR ''/'')"

fun split_slash :: "string \<Rightarrow> string list" where
  "split_slash [] = [[]]"
| "split_slash (c # cs) =
     (if c = CHR ''/'' then [] # split_slash cs
      else (case split_slash cs of [] \<Rightarrow> [[c]] | e # es \<Rightarrow> (c # e) # es))"

definition clean_step :: "bool \<Rightarrow> string list \<Rightarrow> string \<Rightarrow> string list" where
  "clean_step rooted out e =
     (if e = [] \<or> e = ''.'' then out
      else if e = ''..'' then
        (if out \<noteq> [] \<and> last out \<noteq> ''..'' then butlast out
         else if \<not> rooted then out @ [''..'']
         else out)
      else out @ [e])"

definition path_Clean :: "string \<Rightarrow> string" where
  "path_Clean p =
     (if p = [] then ''.''
      else let rooted = path_IsAbs p;
               body = strings_Join (foldl (clean_step rooted) [] (split_slash p)) ''/''
           in if rooted then CHR ''/'' # body
              else if body = [] then ''.''
              else body)"

fun join_buf :: "string \<Rightarrow> string list \<Rightarrow> string" where
  "join_buf buf [] = buf"
| "join_buf buf (e # es) =
     join_buf (if buf \<noteq> [] \<or> e \<noteq> []
               then (if buf \<noteq> [] then buf @ ''/'' else buf) @ e
               else buf) es"

definition path_Join :: "string list \<Rightarrow> string" where
  "path_Join elem = (if concat elem = [] then [] else path_Clean (join_buf [] elem))"

section \<open>Configuration\<close>

text \<open>
  The struct \<^verbatim>\<open>Config\<close>.  \<^verbatim>\<open>CompilingArguments\<close> is a function without arguments
  that is called once per build: the model holds the list it returns, \<open>None\<close> for a
  \<^verbatim>\<open>nil\<close> function.  \<^verbatim>\<open>Logger\<close> and \<^verbatim>\<open>Callback\<close> are function values of which the
  code asks only whether they are \<^verbatim>\<open>nil\<close>; what is passed to them is recorded in
  the world (see below).  \<^verbatim>\<open>Timeout\<close> is a \<^verbatim>\<open>time.Duration\<close>, a number of nanoseconds.
\<close>

record Config =
  AppRootDir :: string
  Command :: string
  MainInputFileRelativePath :: string
  OutName :: string
  Extension :: string
  CompilingArguments :: "string list option"
  OutFolderRelativePath :: string
  Logger :: bool
  Callback :: bool
  Timeout :: int
  Env :: "string list"

definition Second :: int where
  "Second = 1000000000"

section \<open>The argument builder\<close>

text \<open>
  The loop of \<^verbatim>\<open>buildArguments\<close> over \<^verbatim>\<open>args\<close>, as a recursion over the tokens not
  yet read; it returns \<^verbatim>\<open>buildArgs\<close> and \<^verbatim>\<open>ldFlags\<close>.  The branch \<^verbatim>\<open>arg == "-X" &&
  i+1 < len(args)\<close> is the pattern with a token after \<^verbatim>\<open>arg\<close>; it skips that token.
\<close>

fun args_loop :: "string list \<Rightarrow> string list \<Rightarrow> string list \<Rightarrow> string list \<times> string list" where
  "args_loop [] buildArgs ldFlags = (buildArgs, ldFlags)"
| "args_loop [arg] buildArgs ldFlags =
     (if strings_HasPrefix arg ''-X'' then
        (if strings_ContainsEq arg then (buildArgs, ldFlags @ [arg])
         else (buildArgs, ldFlags @ [arg]))
      else (buildArgs @ [arg], ldFlags))"
| "args_loop (arg # nxt # rest) buildArgs ldFlags =
     (if strings_HasPrefix arg ''-X'' then
        (if arg = ''-X'' then args_loop rest buildArgs (ldFlags @ [arg, nxt])
         else if strings_ContainsEq arg then args_loop (nxt # rest) buildArgs (ldFlags @ [arg])
         else args_loop (nxt # rest) buildArgs (ldFlags @ [arg]))
      else args_loop (nxt # rest) (buildArgs @ [arg]) ldFlags)"

text \<open>The output path logic of \<^verbatim>\<open>buildArguments\<close> (the local \<^verbatim>\<open>outputPath\<close>).\<close>

definition outputPath :: "Config \<Rightarrow> string \<Rightarrow> string" where
  "outputPath c tempFileName =
     (if path_IsAbs tempFileName \<or> strings_HasPrefix tempFileName ''/dev/''
      then tempFileName
      else path_Join [OutFolderRelativePath c, tempFileName])"

definition buildArguments :: "Config \<Rightarrow> string \<Rightarrow> string list" where
  "buildArguments c tempFileName =
     (let (buildArgs, ldFlags) =
            (case CompilingArguments c of
               None \<Rightarrow> ([''build''], [])
             | Some args \<Rightarrow> args_loop args [''build''] []);
          buildArgs = (if length ldFlags > 0
                       then buildArgs @ [''-ldflags='' @ strings_Join ldFlags '' '']
                       else buildArgs)
      in buildArgs @ [''-o'', outputPath c tempFileName, MainInputFileRelativePath c])"

text \<open>
  The tokens the loop leaves in \<^verbatim>\<open>buildArgs\<close> and the tokens it moves to \<^verbatim>\<open>ldFlags\<close>,
  when both start empty.
\<close>

definition ordinaryFlags :: "string list \<Rightarrow> string list" where
  "ordinaryFlags args = fst (args_loop args [] [])"

definition linkFlags :: "string list \<Rightarrow> string list" where
  "linkFlags args = snd (args_loop args [] [])"

section \<open>The world outside the builder\<close>

text \<open>
  An \<^verbatim>\<open>exec.Cmd\<close> as the code fills it in: the command, its arguments, its working
  directory, and its environment, where \<^verbatim>\<open>nil\<close> (\<open>None\<close>) means that the child
  inherits the environment of this process.
\<close>

record Cmd =
  cmd_Path :: string
  cmd_Args :: "string list"
  cmd_Dir :: string
  cmd_Env :: "string list option"

datatype stream = Stdout | Stderr

text \<open>The value of \<^verbatim>\<open>ctx.Err()\<close>: \<^verbatim>\<open>nil\<close>, \<^verbatim>\<open>context.Canceled\<close> or
  \<^verbatim>\<open>context.DeadlineExceeded\<close>.\<close>

datatype ctx_error = CtxNil | Canceled | DeadlineExceeded

text \<open>
  What running one command under its context gave: the error of \<^verbatim>\<open>cmd.Run()\<close> or
  \<^verbatim>\<open>cmd.CombinedOutput()\<close> (the text of \<^verbatim>\<open>err.Error()\<close>, \<open>None\<close> for \<^verbatim>\<open>nil\<close>), what
  the process wrote to its two output streams in the order of writing, the value of
  \<^verbatim>\<open>ctx.Err()\<close> when the builder reads it after the run, and the files on disk once
  the process is gone.  A process that the context kills because its deadline has
  elapsed ends with an error and with \<open>DeadlineExceeded\<close>.
\<close>

record proc_result =
  run_err :: "string option"
  written :: "(stream \<times> bytes) list"
  ctx_after :: ctx_error
  files_after :: "string \<rightharpoonup> bytes"

definition stdout_of :: "proc_result \<Rightarrow> bytes" where
  "stdout_of r = concat (map snd (filter (\<lambda>x. fst x = Stdout) (written r)))"

definition stderr_of :: "proc_result \<Rightarrow> bytes" where
  "stderr_of r = concat (map snd (filter (\<lambda>x. fst x = Stderr) (written r)))"

definition combined_of :: "proc_result \<Rightarrow> bytes" where
  "combined_of r = concat (map snd (written r))"

text \<open>
  The errors the builder returns, one constructor for each place that makes one:
  \<^verbatim>\<open>errors.New(errMsg)\<close> in \<^verbatim>\<open>compileSync\<close>, with its message; the two
  \<^verbatim>\<open>fmt.Errorf\<close> of \<^verbatim>\<open>CompileToMemory\<close>, with the values they format (the timeout;
  the wrapped error and the standard error text); and the error of a failed rename,
  with the two paths.
\<close>

datatype error =
    BuildFailed string
  | TimedOut int
  | CompilationFailed string bytes
  | RenameFailed string string

text \<open>
  The kinds of error: a timeout is the error that the deadline test of
  \<^verbatim>\<open>CompileToMemory\<close> makes; a build failure is an error that one of the two paths
  makes from the error of the run.
\<close>

fun is_timeout :: "error \<Rightarrow> bool" where
  "is_timeout (TimedOut d) = True"
| "is_timeout (BuildFailed m) = False"
| "is_timeout (CompilationFailed e out) = False"
| "is_timeout (RenameFailed a b) = False"

fun is_build_failure :: "error \<Rightarrow> bool" where
  "is_build_failure (BuildFailed m) = True"
| "is_build_failure (CompilationFailed e out) = True"
| "is_build_failure (TimedOut d) = False"
| "is_build_failure (RenameFailed a b) = False"

datatype log_arg = LStr string | LInt nat

text \<open>
  The struct \<^verbatim>\<open>compilation\<close>.  Its \<^verbatim>\<open>cmd\<close> is in the world's list of launched
  commands, its \<^verbatim>\<open>cancel\<close> function is named by the job's address (calling it adds
  the address to \<open>cancelled\<close>), and nothing reads or writes its channel \<^verbatim>\<open>done\<close>.
\<close>

record compilation =
  tempFile :: string
  startTime :: int
  memoryBytes :: "bytes option"

text \<open>
  The world: the heap of \<^verbatim>\<open>Config\<close> objects, the heap of \<^verbatim>\<open>compilation\<close> objects
  (the address of a job is its index; allocation appends), the cancel functions called
  so far, the files on disk, \<^verbatim>\<open>os.Environ()\<close>, the commands launched, what the
  \<^verbatim>\<open>Logger\<close> was given and what the \<^verbatim>\<open>Callback\<close> was given.
\<close>

record world =
  configs :: "nat \<rightharpoonup> Config"
  jobs :: "compilation list"
  cancelled :: "nat list"
  files :: "string \<rightharpoonup> bytes"
  environ :: "string list"
  launched :: "Cmd list"
  logged :: "log_arg list list"
  callbacks :: "error option list"

text \<open>
  The struct \<^verbatim>\<open>GoBuild\<close>: \<^verbatim>\<open>config\<close> and \<^verbatim>\<open>active\<close> are pointers (addresses in the
  two heaps, \<open>None\<close> for \<^verbatim>\<open>nil\<close>).  The mutex \<^verbatim>\<open>mu\<close> makes each locked section one
  step.  The \<^verbatim>\<open>binarySizer\<close> that \<^verbatim>\<open>New\<close> installs has \<^verbatim>\<open>getBinaryBytes\<close> of this
  builder as its accessor; \<open>GoBuild_BinarySize\<close> below passes it.
\<close>

record GoBuild =
  config :: nat
  active :: "nat option"
  outFileName :: string
  outTempFileName :: string

section \<open>Construction\<close>

text \<open>
  \<^verbatim>\<open>New(c *Config)\<close>: \<open>p\<close> is the pointer.  Reading \<^verbatim>\<open>c.Timeout\<close> through a pointer
  that points to no \<^verbatim>\<open>Config\<close> panics (\<open>None\<close>).
\<close>

definition New :: "nat \<Rightarrow> world \<Rightarrow> (GoBuild \<times> world) option" where
  "New p w =
     (case configs w p of
        None \<Rightarrow> None
      | Some c \<Rightarrow>
          let c = (if Timeout c = 0 then c\<lparr>Timeout := 5 * Second\<rparr> else c)
          in Some (\<lparr>config = p, active = None,
                     outFileName = OutName c @ Extension c,
                     outTempFileName = OutName c @ ''_temp'' @ Extension c\<rparr>,
                   w\<lparr>configs := (configs w)(p \<mapsto> c)\<rparr>))"

text \<open>
  The methods below read the fields of \<^verbatim>\<open>h.config\<close>; their first argument \<open>c\<close> is
  the \<^verbatim>\<open>Config\<close> that \<^verbatim>\<open>h.config\<close> points to when they are called.
\<close>

definition log :: "Config \<Rightarrow> log_arg list \<Rightarrow> world \<Rightarrow> world" where
  "log c msg w = (if Logger c then w\<lparr>logged := logged w @ [msg]\<rparr> else w)"

definition FinalOutputPath :: "Config \<Rightarrow> GoBuild \<Rightarrow> string" where
  "FinalOutputPath c h = path_Join [OutFolderRelativePath c, outFileName h]"

definition BuildArguments :: "Config \<Rightarrow> GoBuild \<Rightarrow> string list" where
  "BuildArguments c h = buildArguments c (outTempFileName h)"

section \<open>The locked sections\<close>

text \<open>\<^verbatim>\<open>if h.active != nil { h.active.cancel(); h.active = nil }\<close>\<close>

definition cancel_active :: "GoBuild \<Rightarrow> world \<Rightarrow> GoBuild \<times> world" where
  "cancel_active h w =
     (case active h of
        None \<Rightarrow> (h, w)
      | Some j \<Rightarrow> (h\<lparr>active := None\<rparr>, w\<lparr>cancelled := cancelled w @ [j]\<rparr>))"

text \<open>\<^verbatim>\<open>comp := &compilation{...}; h.active = comp\<close>: the new job's address is returned.\<close>

definition install :: "compilation \<Rightarrow> GoBuild \<Rightarrow> world \<Rightarrow> nat \<times> GoBuild \<times> world" where
  "install job h w =
     (length (jobs w), h\<lparr>active := Some (length (jobs w))\<rparr>, w\<lparr>jobs := jobs w @ [job]\<rparr>)"

text \<open>\<^verbatim>\<open>if h.active == comp { h.active = nil }\<close>, for the job at address \<open>j\<close>.\<close>

definition clear_if_active :: "nat \<Rightarrow> GoBuild \<Rightarrow> GoBuild" where
  "clear_if_active j h = (if active h = Some j then h\<lparr>active := None\<rparr> else h)"

text \<open>
  The first locked section of \<^verbatim>\<open>CompileProgram\<close>; \<open>t_name\<close> and \<open>t_start\<close> are the two
  readings of \<^verbatim>\<open>time.Now()\<close> (\<^verbatim>\<open>UnixNano\<close> of the first goes into the name).
\<close>

definition CompileProgram_begin ::
    "Config \<Rightarrow> int \<Rightarrow> int \<Rightarrow> GoBuild \<Rightarrow> world \<Rightarrow> nat \<times> GoBuild \<times> world" where
  "CompileProgram_begin c t_name t_start h w =
     (let (h, w) = cancel_active h w;
          tempFileName = OutName c @ ''_temp_'' @ show_int t_name @ Extension c
      in install \<lparr>tempFile = tempFileName, startTime = t_start, memoryBytes = None\<rparr> h w)"

text \<open>The first locked section of \<^verbatim>\<open>CompileToMemory\<close>.\<close>

definition CompileToMemory_begin ::
    "Config \<Rightarrow> int \<Rightarrow> GoBuild \<Rightarrow> world \<Rightarrow> nat \<times> GoBuild \<times> world" where
  "CompileToMemory_begin c t_start h w =
     (let (h, w) = cancel_active h w
      in install \<lparr>tempFile = ''memory'', startTime = t_start, memoryBytes = None\<rparr> h w)"

text \<open>\<^verbatim>\<open>Cancel\<close> returns \<^verbatim>\<open>nil\<close> on both paths; \<^verbatim>\<open>IsCompiling\<close> reads the pointer.\<close>

definition Cancel :: "GoBuild \<Rightarrow> world \<Rightarrow> error option \<times> GoBuild \<times> world" where
  "Cancel h w =
     (case active h of
        Some j \<Rightarrow> (None, h\<lparr>active := None\<rparr>, w\<lparr>cancelled := cancelled w @ [j]\<rparr>)
      | None \<Rightarrow> (None, h, w))"

definition IsCompiling :: "GoBuild \<Rightarrow> bool" where
  "IsCompiling h = (active h \<noteq> None)"

section \<open>Compiling to disk\<close>

text \<open>
  Modelled from the spec: \<^verbatim>\<open>cleanupTempFile\<close>, which \<^verbatim>\<open>compileSync\<close> calls and whose
  body is not among the sources.  The spec: on failure, "delete the temp artifact if
  it exists".  The temp artifact is the file at the destination that the compiler was
  given after \<^verbatim>\<open>-o\<close>.
\<close>

definition cleanupTempFile :: "Config \<Rightarrow> string \<Rightarrow> world \<Rightarrow> world" where
  "cleanupTempFile c tempFileName w =
     w\<lparr>files := (files w)(outputPath c tempFileName := None)\<rparr>"

text \<open>
  Modelled from the spec: \<^verbatim>\<open>renameOutputFile\<close>, which \<^verbatim>\<open>compileSync\<close> calls and whose
  body is not among the sources.  The spec: "atomically rename the temp artifact to
  the final output path (directory + base name + extension). Failure to rename is
  reported as a distinct error".  A rename fails when there is no temp artifact.
\<close>

definition renameOutputFile :: "Config \<Rightarrow> GoBuild \<Rightarrow> string \<Rightarrow> world \<Rightarrow> error option \<times> world" where
  "renameOutputFile c h tempFileName w =
     (let tmp = outputPath c tempFileName;
          final = FinalOutputPath c h
      in case files w tmp of
           None \<Rightarrow> (Some (RenameFailed tmp final), w)
         | Some b \<Rightarrow> (None, w\<lparr>files := (files w)(tmp := None, final \<mapsto> b)\<rparr>))"

text \<open>
  \<^verbatim>\<open>compileSync(ctx, comp)\<close>; \<open>r\<close> is what running the command under \<^verbatim>\<open>ctx\<close> gave.
  \<^verbatim>\<open>fmt.Sprintf("%v build failed: %v", e, err)\<close> with \<^verbatim>\<open>e = errors.New("compileSync")\<close>
  is the text \<^verbatim>\<open>compileSync build failed: \<close> followed by the text of \<^verbatim>\<open>err\<close>.
\<close>

definition compileSync ::
    "Config \<Rightarrow> proc_result \<Rightarrow> GoBuild \<Rightarrow> compilation \<Rightarrow> world \<Rightarrow> error option \<times> world" where
  "compileSync c r h job w =
     (let buildArgs = buildArguments c (tempFile job);
          cmd = \<lparr>cmd_Path = Command c, cmd_Args = buildArgs,
                 cmd_Dir = OutFolderRelativePath c,
                 cmd_Env = (if length (Env c) > 0 then Some (environ w @ Env c) else None)\<rparr>;
          w = w\<lparr>launched := launched w @ [cmd], files := files_after r\<rparr>;
          output = combined_of r
      in case run_err r of
           Some err \<Rightarrow>
             let errMsg = ''compileSync'' @ '' build failed: '' @ err;
                 errMsg = (if length output > 0 then errMsg @ '' '' @ output else errMsg);
                 w = cleanupTempFile c (tempFile job) w
             in (Some (BuildFailed errMsg), w)
         | None \<Rightarrow> renameOutputFile c h (tempFile job) w)"

text \<open>
  \<^verbatim>\<open>CompileProgram\<close> when no other goroutine touches the builder while it runs.  With
  a \<^verbatim>\<open>Callback\<close> it returns \<^verbatim>\<open>nil\<close> at once and the goroutine it started does the
  rest (\<open>CompileProgram_goroutine\<close>, for the job at address \<open>j\<close>).
\<close>

definition CompileProgram ::
    "Config \<Rightarrow> int \<Rightarrow> int \<Rightarrow> proc_result \<Rightarrow> GoBuild \<Rightarrow> world \<Rightarrow> error option \<times> GoBuild \<times> world" where
  "CompileProgram c t_name t_start r h w =
     (let (j, h, w) = CompileProgram_begin c t_name t_start h w
      in if Callback c then (None, h, w)
         else let (err, w) = compileSync c r h (jobs w ! j) w;
                  h = clear_if_active j h
              in (err, h, w))"

definition CompileProgram_goroutine ::
    "Config \<Rightarrow> proc_result \<Rightarrow> nat \<Rightarrow> GoBuild \<Rightarrow> world \<Rightarrow> GoBuild \<times> world" where
  "CompileProgram_goroutine c r j h w =
     (let (err, w) = compileSync c r h (jobs w ! j) w;
          w = w\<lparr>callbacks := callbacks w @ [err]\<rparr>;
          h = clear_if_active j h
      in (h, w))"

section \<open>Compiling to memory\<close>

text \<open>
  \<^verbatim>\<open>CompileToMemory\<close> when no other goroutine touches the builder while it runs.
  The result \<^verbatim>\<open>(nil, err)\<close> is \<open>Inl err\<close> and \<^verbatim>\<open>(wasmBuffer.Bytes(), nil)\<close> is \<open>Inr\<close>.
\<close>

definition CompileToMemory ::
    "Config \<Rightarrow> int \<Rightarrow> proc_result \<Rightarrow> GoBuild \<Rightarrow> world \<Rightarrow> (error + bytes) \<times> GoBuild \<times> world" where
  "CompileToMemory c t_start r h w =
     (let (j, h, w) = CompileToMemory_begin c t_start h w;
          outputDest = ''/dev/stdout'';
          args = buildArguments c outputDest;
          cmd = \<lparr>cmd_Path = Command c, cmd_Args = args,
                 cmd_Dir = AppRootDir c,
                 cmd_Env = Some (environ w)\<rparr>;
          w = log c [LStr ''Compiling to memory...''] w;
          w = w\<lparr>launched := launched w @ [cmd], files := files_after r\<rparr>;
          h = clear_if_active j h
      in if ctx_after r = DeadlineExceeded then (Inl (TimedOut (Timeout c)), h, w)
         else case run_err r of
                Some err \<Rightarrow> (Inl (CompilationFailed err (stderr_of r)), h, w)
              | None \<Rightarrow>
                  (Inr (stdout_of r), h,
                   log c [LStr ''Compilation to memory success. Size:'',
                          LInt (length (stdout_of r)), LStr ''bytes''] w))"

section \<open>The size of the binary\<close>

text \<open>
  \<^verbatim>\<open>getBinaryBytes\<close>: \<^verbatim>\<open>h.active.memoryBytes\<close> is read through the pointer, which
  addresses an allocated job whenever it is not \<^verbatim>\<open>nil\<close>; \<^verbatim>\<open>os.ReadFile\<close> gives
  \<^verbatim>\<open>nil\<close> for a file that is not there.
\<close>

definition getBinaryBytes :: "Config \<Rightarrow> GoBuild \<Rightarrow> world \<Rightarrow> bytes option" where
  "getBinaryBytes c h w =
     (case active h of
        Some j \<Rightarrow>
          if len (memoryBytes (jobs w ! j)) > 0 then memoryBytes (jobs w ! j)
          else files w (FinalOutputPath c h)
      | None \<Rightarrow> files w (FinalOutputPath c h))"

definition KB :: nat where "KB = 1024"
definition MB :: nat where "MB = 1024 * 1024"
definition GB :: nat where "GB = 1024 * 1024 * 1024"

text \<open>
  \<^verbatim>\<open>float64(len(bytes))\<close>: a length below \<open>2 ^ 53\<close> is a \<^verbatim>\<open>float64\<close> as it is; a
  greater one is rounded to 53 significant bits, to the nearest and to even on a tie.
  The result is a whole number in both cases.
\<close>

definition float64_of_nat :: "nat \<Rightarrow> nat" where
  "float64_of_nat n =
     (if n < 2 ^ 53 then n
      else let sh = nat (bitlen (int n)) - 53;
               q = n div 2 ^ sh;
               r = n mod 2 ^ sh;
               half = 2 ^ (sh - 1)
           in (if r > half \<or> (r = half \<and> odd q) then q + 1 else q) * 2 ^ sh)"

text \<open>
  \<^verbatim>\<open>fmt.Sprintf("%.1f", size/unit)\<close> for a whole size \<open>sz\<close> and a \<open>unit\<close> that is a
  power of two: the quotient is exact in \<^verbatim>\<open>float64\<close>, and \<^verbatim>\<open>%.1f\<close> prints its tenths
  rounded to the nearest, to even on a tie.
\<close>

definition format_1f :: "nat \<Rightarrow> nat \<Rightarrow> string" where
  "format_1f sz unit =
     (let t = 10 * sz;
          q = t div unit;
          r = t mod unit;
          tenths = (if 2 * r > unit \<or> (2 * r = unit \<and> odd q) then q + 1 else q)
      in show_nat (tenths div 10) @ ''.'' @ [digit_char (tenths mod 10)])"

text \<open>\<^verbatim>\<open>BinarySizer.BinarySize\<close>: \<open>getBinary\<close> is the accessor (\<open>None\<close> for \<^verbatim>\<open>nil\<close>), which
  reads the state \<open>s\<close>.\<close>

definition BinarySize :: "('s \<Rightarrow> bytes option) option \<Rightarrow> 's \<Rightarrow> string" where
  "BinarySize getBinary s =
     (case getBinary of
        None \<Rightarrow> ''0.0 KB''
      | Some f \<Rightarrow>
          let bytes = f s
          in if len bytes = 0 then ''0.0 KB''
             else let sz = float64_of_nat (len bytes)
                  in if sz \<ge> GB then format_1f sz GB @ '' GB''
                     else if sz \<ge> MB then format_1f sz MB @ '' MB''
                     else format_1f sz KB @ '' KB'')"

text \<open>\<^verbatim>\<open>GoBuild.BinarySize\<close>: the sizer made by \<^verbatim>\<open>New\<close> has \<^verbatim>\<open>h.getBinaryBytes\<close> as accessor.\<close>

definition GoBuild_BinarySize :: "Config \<Rightarrow> GoBuild \<Rightarrow> world \<Rightarrow> string" where
  "GoBuild_BinarySize c h w = BinarySize (Some (getBinaryBytes c h)) w"

section \<open>Interleavings of the locked sections\<close>

text \<open>
  Goroutines that share one builder interleave at the locked sections: a request
  enters its first section, a job that has finished enters the section that clears
  the reference, \<^verbatim>\<open>Cancel\<close> and \<^verbatim>\<open>IsCompiling\<close> are one section each.
\<close>

datatype event =
    CompileProgramBegins int int
  | CompileToMemoryBegins int
  | JobCompletes nat
  | CancelCalled
  | IsCompilingCalled

definition step :: "Config \<Rightarrow> event \<Rightarrow> GoBuild \<times> world \<Rightarrow> GoBuild \<times> world" where
  "step c ev s =
     (case s of (h, w) \<Rightarrow>
        (case ev of
           CompileProgramBegins t_name t_start \<Rightarrow> snd (CompileProgram_begin c t_name t_start h w)
         | CompileToMemoryBegins t_start \<Rightarrow> snd (CompileToMemory_begin c t_start h w)
         | JobCompletes j \<Rightarrow> (clear_if_active j h, w)
         | CancelCalled \<Rightarrow> snd (Cancel h w)
         | IsCompilingCalled \<Rightarrow> (h, w)))"

definition run :: "Config \<Rightarrow> event list \<Rightarrow> GoBuild \<times> world \<Rightarrow> GoBuild \<times> world" where
  "run c evs s = foldl (\<lambda>s ev. step c ev s) s evs"

text \<open>The jobs that the builder references as active.\<close>

definition active_jobs :: "GoBuild \<Rightarrow> nat set" where
  "active_jobs h = (case active h of None \<Rightarrow> {} | Some j \<Rightarrow> {j})"

text \<open>
  A state of builder and world is well formed when the active reference, if any,
  addresses an allocated job, and so does every cancel function that was called.
\<close>

definition wf_state :: "GoBuild \<times> world \<Rightarrow> bool" where
  "wf_state s =
     (case s of (h, w) \<Rightarrow>
        (case active h of None \<Rightarrow> True | Some j \<Rightarrow> j < length (jobs w))
        \<and> list_all (\<lambda>j. j < length (jobs w)) (cancelled w))"

section \<open>Concrete inputs\<close>

definition example_config :: Config where
  "example_config =
     \<lparr>AppRootDir = ''/proj'', Command = ''go'', MainInputFileRelativePath = ''main.go'',
      OutName = ''app'', Extension = ''.wasm'', CompilingArguments = None,
      OutFolderRelativePath = ''build'', Logger = False, Callback = False,
      Timeout = 5 * Second, Env = [''GOOS=js'']\<rparr>"

definition example_builder :: GoBuild where
  "example_builder =
     \<lparr>config = 0, active = None, outFileName = ''app.wasm'', outTempFileName = ''app_temp.wasm''\<rparr>"

definition example_world :: world where
  "example_world =
     \<lparr>configs = [0 \<mapsto> example_config], jobs = [], cancelled = [], files = Map.empty,
      environ = [''HOME=/root''], launched = [], logged = [], callbacks = []\<rparr>"

text \<open>
  A run that succeeds and writes three bytes to its standard output; a run that the
  deadline kills; a run of a compiler that rejects the program and leaves a partial
  artifact; a run that succeeds and leaves the artifact at the destination it was given.
\<close>

definition ok_run :: proc_result where
  "ok_run = \<lparr>run_err = None, written = [(Stdout, ''BIN'')], ctx_after = CtxNil,
             files_after = Map.empty\<rparr>"

definition killed_run :: proc_result where
  "killed_run = \<lparr>run_err = Some ''signal: killed'', written = [], ctx_after = DeadlineExceeded,
                 files_after = Map.empty\<rparr>"

definition failed_run :: proc_result where
  "failed_run = \<lparr>run_err = Some ''exit status 1'', written = [(Stderr, ''syntax error'')],
                 ctx_after = CtxNil,
                 files_after = [''build/app_temp_1700.wasm'' \<mapsto> ''part'']\<rparr>"

definition built_run :: proc_result where
  "built_run = \<lparr>run_err = None, written = [], ctx_after = CtxNil,
                files_after = [''build/app_temp_1700.wasm'' \<mapsto> ''BIN'']\<rparr>"

section \<open>Properties of the argument builder\<close>

lemma args_loop_acc_aux:
  fixes b l :: "string list"
  shows "\<forall>b' l'. args_loop args b' l' = (b' @ ordinaryFlags args, l' @ linkFlags args)"
  unfolding ordinaryFlags_def linkFlags_def
proof (induction args b l rule: args_loop.induct)
  case (1 buildArgs ldFlags)
  show ?case by simp
next
  case (2 arg buildArgs ldFlags)
  show ?case by simp
next
  case (3 arg nxt rest buildArgs ldFlags)
  show ?case
  proof (intro allI)
    fix b' l'
    show "args_loop (arg # nxt # rest) b' l' =
       (b' @ fst (args_loop (arg # nxt # rest) [] []), l' @ snd (args_loop (arg # nxt # rest) [] []))"
    proof (cases "strings_HasPrefix arg ''-X''")
      case True
      note hp = True
      show ?thesis
      proof (cases "arg = ''-X''")
        case True
        from 3(1)[OF hp True]
        have ih: "\<And>b' l'. args_loop rest b' l' =
            (b' @ fst (args_loop rest [] []), l' @ snd (args_loop rest [] []))"
          by blast
        show ?thesis
          using hp True ih[of b' "l' @ [arg, nxt]"] ih[of "[]" "[arg, nxt]"] by simp
      next
        case False
        have ih: "\<And>b' l'. args_loop (nxt # rest) b' l' =
            (b' @ fst (args_loop (nxt # rest) [] []), l' @ snd (args_loop (nxt # rest) [] []))"
          using 3(2)[OF hp False] 3(3)[OF hp False]
          by (cases "strings_ContainsEq arg") blast+
        show ?thesis
          using hp False ih[of b' "l' @ [arg]"] ih[of "[]" "[arg]"] by simp
      qed
    next
      case False
      from 3(4)[OF False]
      have ih: "\<And>b' l'. args_loop (nxt # rest) b' l' =
          (b' @ fst (args_loop (nxt # rest) [] []), l' @ snd (args_loop (nxt # rest) [] []))"
        by blast
      show ?thesis
        using False ih[of "b' @ [arg]" l'] ih[of "[arg]" "[]"] by simp
    qed
  qed
qed

lemma args_loop_acc: "args_loop args b l = (b @ ordinaryFlags args, l @ linkFlags args)"
  using args_loop_acc_aux by blast

lemma flags_Nil: "ordinaryFlags [] = []" "linkFlags [] = []"
  by (simp_all add: ordinaryFlags_def linkFlags_def)

lemma flags_single:
  "ordinaryFlags [a] = (if strings_HasPrefix a ''-X'' then [] else [a])"
  "linkFlags [a] = (if strings_HasPrefix a ''-X'' then [a] else [])"
  by (simp_all add: ordinaryFlags_def linkFlags_def)

lemma flags_Cons2:
  "ordinaryFlags (a # n # rest) =
     (if strings_HasPrefix a ''-X''
      then (if a = ''-X'' then ordinaryFlags rest else ordinaryFlags (n # rest))
      else a # ordinaryFlags (n # rest))"
  "linkFlags (a # n # rest) =
     (if strings_HasPrefix a ''-X''
      then (if a = ''-X'' then a # n # linkFlags rest else a # linkFlags (n # rest))
      else linkFlags (n # rest))"
proof -
  have unfolded: "args_loop (a # n # rest) [] [] =
     (if strings_HasPrefix a ''-X'' then
        (if a = ''-X'' then (ordinaryFlags rest, a # n # linkFlags rest)
         else (ordinaryFlags (n # rest), a # linkFlags (n # rest)))
      else (a # ordinaryFlags (n # rest), linkFlags (n # rest)))"
    by (simp add: args_loop_acc[of rest] args_loop_acc[of "n # rest"])
  show "ordinaryFlags (a # n # rest) =
     (if strings_HasPrefix a ''-X''
      then (if a = ''-X'' then ordinaryFlags rest else ordinaryFlags (n # rest))
      else a # ordinaryFlags (n # rest))"
    unfolding ordinaryFlags_def[of "a # n # rest"] unfolded by simp
  show "linkFlags (a # n # rest) =
     (if strings_HasPrefix a ''-X''
      then (if a = ''-X'' then a # n # linkFlags rest else a # linkFlags (n # rest))
      else linkFlags (n # rest))"
    unfolding linkFlags_def[of "a # n # rest"] unfolded by simp
qed

lemmas flags_simps = flags_Nil flags_single flags_Cons2

lemma subseq_ordinaryFlags: "subseq (ordinaryFlags args) args"
  by (induction args rule: induct_list012) (auto simp: flags_simps)

lemma subseq_linkFlags: "subseq (linkFlags args) args"
  by (induction args rule: induct_list012) (auto simp: flags_simps)

lemma ordinaryFlags_no_prefix:
  "a \<in> set (ordinaryFlags args) \<Longrightarrow> \<not> strings_HasPrefix a ''-X''"
  by (induction args rule: induct_list012) (auto simp: flags_simps split: if_splits)

lemma linkFlags_all_prefixed:
  "a \<in> set args \<Longrightarrow> strings_HasPrefix a ''-X'' \<Longrightarrow> a \<in> set (linkFlags args)"
  by (induction args rule: induct_list012) (auto simp: flags_simps split: if_splits)

lemma flags_length: "length (ordinaryFlags args) + length (linkFlags args) = length args"
  by (induction args rule: induct_list012) (auto simp: flags_simps)

lemma flags_filter:
  "''-X'' \<notin> set (butlast args) \<Longrightarrow>
     ordinaryFlags args = filter (\<lambda>a. \<not> strings_HasPrefix a ''-X'') args \<and>
     linkFlags args = filter (\<lambda>a. strings_HasPrefix a ''-X'') args"
  by (induction args rule: induct_list012) (auto simp: flags_simps split: if_splits)

lemma buildArguments_Some:
  "CompilingArguments c = Some args \<Longrightarrow>
   buildArguments c tok =
     ''build'' # ordinaryFlags args
       @ (if linkFlags args = [] then []
          else [''-ldflags='' @ strings_Join (linkFlags args) '' ''])
       @ [''-o'', outputPath c tok, MainInputFileRelativePath c]"
  by (simp add: buildArguments_def args_loop_acc)

lemma buildArguments_None:
  "CompilingArguments c = None \<Longrightarrow>
   buildArguments c tok = [''build'', ''-o'', outputPath c tok, MainInputFileRelativePath c]"
  by (simp add: buildArguments_def)

lemma buildArguments_two_token:
  "buildArguments (c\<lparr>CompilingArguments := Some [''-X'', ''main.version=v1'']\<rparr>) tok
     = [''build'', ''-ldflags=-X main.version=v1'', ''-o'', outputPath c tok,
        MainInputFileRelativePath c]"
  by (simp add: buildArguments_def outputPath_def strings_HasPrefix_def)

lemma buildArguments_single_token:
  "buildArguments (c\<lparr>CompilingArguments := Some [''-X main.version=v1'']\<rparr>) tok
     = [''build'', ''-ldflags=-X main.version=v1'', ''-o'', outputPath c tok,
        MainInputFileRelativePath c]"
  by (simp add: buildArguments_def outputPath_def strings_HasPrefix_def strings_ContainsEq_def)

lemma buildArguments_suffix:
  "\<exists>pre. \<forall>tok. buildArguments c tok = pre @ [''-o'', outputPath c tok, MainInputFileRelativePath c]"
proof (cases "CompilingArguments c")
  case None
  then have "\<forall>tok. buildArguments c tok =
      [''build''] @ [''-o'', outputPath c tok, MainInputFileRelativePath c]"
    by (simp add: buildArguments_None)
  then show ?thesis by blast
next
  case (Some args)
  have "\<forall>tok. buildArguments c tok =
      (''build'' # ordinaryFlags args
         @ (if linkFlags args = [] then []
            else [''-ldflags='' @ strings_Join (linkFlags args) '' '']))
      @ [''-o'', outputPath c tok, MainInputFileRelativePath c]"
    using buildArguments_Some[OF Some] by simp
  then show ?thesis by blast
qed

text \<open>
  C5.  When the configuration supplies extra flags \<open>args\<close>, the argument list is
  \<^verbatim>\<open>build\<close>, then the ordinary flags, then (when link flags were collected) one token
  \<^verbatim>\<open>-ldflags=\<close> followed by the link flags joined with spaces, then \<^verbatim>\<open>-o\<close>, the
  destination and the entry file.  The ordinary flags and the link flags are each a
  subsequence of \<open>args\<close> (original order, tokens unchanged) and together they are all of
  \<open>args\<close>; every token that begins with \<^verbatim>\<open>-X\<close> is among the link flags and no ordinary
  flag begins with \<^verbatim>\<open>-X\<close>; when no bare \<^verbatim>\<open>-X\<close> is followed by a value token, the link
  flags are exactly the tokens that begin with \<^verbatim>\<open>-X\<close>.  The two-token form
  \<^verbatim>\<open>["-X", "main.version=v1"]\<close> and the single-token form \<^verbatim>\<open>["-X main.version=v1"]\<close>
  give the same list, with the one token \<^verbatim>\<open>-ldflags=-X main.version=v1\<close>.
\<close>

theorem buildArguments_ldflags:
  assumes "CompilingArguments c = Some args"
  shows "buildArguments c tok =
           ''build'' # ordinaryFlags args
             @ (if linkFlags args = [] then []
                else [''-ldflags='' @ strings_Join (linkFlags args) '' ''])
             @ [''-o'', outputPath c tok, MainInputFileRelativePath c]
         \<and> subseq (ordinaryFlags args) args
         \<and> subseq (linkFlags args) args
         \<and> length (ordinaryFlags args) + length (linkFlags args) = length args
         \<and> (\<forall>a \<in> set args. strings_HasPrefix a ''-X'' \<longrightarrow> a \<in> set (linkFlags args))
         \<and> (\<forall>a \<in> set (ordinaryFlags args). \<not> strings_HasPrefix a ''-X'')
         \<and> (''-X'' \<notin> set (butlast args) \<longrightarrow>
              ordinaryFlags args = filter (\<lambda>a. \<not> strings_HasPrefix a ''-X'') args \<and>
              linkFlags args = filter (\<lambda>a. strings_HasPrefix a ''-X'') args)
         \<and> buildArguments (c\<lparr>CompilingArguments := Some [''-X'', ''main.version=v1'']\<rparr>) tok
             = buildArguments (c\<lparr>CompilingArguments := Some [''-X main.version=v1'']\<rparr>) tok
         \<and> buildArguments (c\<lparr>CompilingArguments := Some [''-X'', ''main.version=v1'']\<rparr>) tok
             = [''build'', ''-ldflags=-X main.version=v1'', ''-o'', outputPath c tok,
                MainInputFileRelativePath c]"
proof -
  have shape: "buildArguments c tok =
           ''build'' # ordinaryFlags args
             @ (if linkFlags args = [] then []
                else [''-ldflags='' @ strings_Join (linkFlags args) '' ''])
             @ [''-o'', outputPath c tok, MainInputFileRelativePath c]"
    by (rule buildArguments_Some[OF assms])
  have diverted: "\<forall>a \<in> set args. strings_HasPrefix a ''-X'' \<longrightarrow> a \<in> set (linkFlags args)"
    by (blast intro: linkFlags_all_prefixed)
  have ordinary: "\<forall>a \<in> set (ordinaryFlags args). \<not> strings_HasPrefix a ''-X''"
    by (blast dest: ordinaryFlags_no_prefix)
  have filt: "''-X'' \<notin> set (butlast args) \<longrightarrow>
      ordinaryFlags args = filter (\<lambda>a. \<not> strings_HasPrefix a ''-X'') args \<and>
      linkFlags args = filter (\<lambda>a. strings_HasPrefix a ''-X'') args"
    using flags_filter by blast
  have same: "buildArguments (c\<lparr>CompilingArguments := Some [''-X'', ''main.version=v1'']\<rparr>) tok
      = buildArguments (c\<lparr>CompilingArguments := Some [''-X main.version=v1'']\<rparr>) tok"
    by (simp only: buildArguments_two_token buildArguments_single_token)
  show ?thesis
    using shape subseq_ordinaryFlags[of args] subseq_linkFlags[of args] flags_length[of args]
      diverted ordinary filt same buildArguments_two_token[of c tok]
    by (intro conjI)
qed

theorem buildArguments_ldflags_witness:
  "buildArguments
     (example_config\<lparr>CompilingArguments := Some [''-v'', ''-X'', ''main.version=v1'', ''-tags'', ''netgo'']\<rparr>)
     ''app_tmp''
   = [''build'', ''-v'', ''-tags'', ''netgo'', ''-ldflags=-X main.version=v1'',
      ''-o'', ''build/app_tmp'', ''main.go'']"
proof -
  let ?args = "[''-v'', ''-X'', ''main.version=v1'', ''-tags'', ''netgo'']"
  let ?c = "example_config\<lparr>CompilingArguments := Some ?args\<rparr>"
  have h: "CompilingArguments ?c = Some ?args" by simp
  have "buildArguments ?c ''app_tmp'' =
           ''build'' # ordinaryFlags ?args
             @ (if linkFlags ?args = [] then []
                else [''-ldflags='' @ strings_Join (linkFlags ?args) '' ''])
             @ [''-o'', outputPath ?c ''app_tmp'', MainInputFileRelativePath ?c]"
    using buildArguments_ldflags[OF h, of "''app_tmp''"] by blast
  then show ?thesis
    by (simp add: flags_simps strings_HasPrefix_def outputPath_def path_IsAbs_def path_Join_def
        path_Clean_def clean_step_def example_config_def)
qed

text \<open>
  C6.  The argument list ends with \<^verbatim>\<open>-o\<close>, the resolved destination and the entry
  source file, after tokens that do not depend on the destination.  The resolved
  destination is the token itself when the token is an absolute path or begins with
  \<^verbatim>\<open>/dev/\<close>, and otherwise the token joined with the output directory; so
  \<^verbatim>\<open>/dev/stdout\<close> is used as it is and \<^verbatim>\<open>app_tmp\<close> is joined with the output directory.
\<close>

theorem buildArguments_destination:
  "(\<exists>pre. \<forall>tok. buildArguments c tok =
       pre @ [''-o'', outputPath c tok, MainInputFileRelativePath c])
   \<and> last (buildArguments c tok) = MainInputFileRelativePath c
   \<and> outputPath c tok =
       (if path_IsAbs tok \<or> strings_HasPrefix tok ''/dev/'' then tok
        else path_Join [OutFolderRelativePath c, tok])
   \<and> outputPath c ''/dev/stdout'' = ''/dev/stdout''
   \<and> outputPath c ''app_tmp'' = path_Join [OutFolderRelativePath c, ''app_tmp'']"
proof -
  obtain pre where pre: "\<forall>tok. buildArguments c tok =
      pre @ [''-o'', outputPath c tok, MainInputFileRelativePath c]"
    using buildArguments_suffix by blast
  have l: "last (buildArguments c tok) = MainInputFileRelativePath c"
    using pre by simp
  have "outputPath c ''/dev/stdout'' = ''/dev/stdout''"
    by (simp add: outputPath_def path_IsAbs_def)
  moreover have "outputPath c ''app_tmp'' = path_Join [OutFolderRelativePath c, ''app_tmp'']"
    by (simp add: outputPath_def path_IsAbs_def strings_HasPrefix_def)
  moreover have "outputPath c tok =
       (if path_IsAbs tok \<or> strings_HasPrefix tok ''/dev/'' then tok
        else path_Join [OutFolderRelativePath c, tok])"
    by (simp add: outputPath_def)
  ultimately show ?thesis using pre l by blast
qed

theorem buildArguments_destination_witness:
  "outputPath example_config ''app_tmp'' = ''build/app_tmp''
   \<and> outputPath example_config ''/dev/stdout'' = ''/dev/stdout''
   \<and> last (buildArguments example_config ''app_tmp'') = ''main.go''"
proof -
  have "outputPath example_config ''app_tmp''
          = path_Join [OutFolderRelativePath example_config, ''app_tmp'']
        \<and> outputPath example_config ''/dev/stdout'' = ''/dev/stdout''
        \<and> last (buildArguments example_config ''app_tmp'')
            = MainInputFileRelativePath example_config"
    using buildArguments_destination[of example_config "''app_tmp''"] by blast
  then show ?thesis
    by (simp add: path_Join_def path_Clean_def path_IsAbs_def clean_step_def example_config_def)
qed

section \<open>Construction, cancellation and the active job\<close>

lemma New_default:
  assumes "configs w p = Some c" "Timeout c = 0"
  shows "New p w = Some (\<lparr>config = p, active = None, outFileName = OutName c @ Extension c,
                     outTempFileName = OutName c @ ''_temp'' @ Extension c\<rparr>,
                  w\<lparr>configs := (configs w)(p \<mapsto> c\<lparr>Timeout := 5000000000\<rparr>)\<rparr>)"
  using assms by (simp add: New_def Second_def)

lemma CompileToMemory_deadline:
  "ctx_after r = DeadlineExceeded \<Longrightarrow> fst (CompileToMemory c t r h w) = Inl (TimedOut (Timeout c))"
  by (simp add: CompileToMemory_def Let_def split: prod.splits)

lemma Cancel_Some: "active h = Some j \<Longrightarrow> Cancel h w = (None, h\<lparr>active := None\<rparr>, w\<lparr>cancelled := cancelled w @ [j]\<rparr>)"
  by (simp add: Cancel_def)
lemma Cancel_None: "active h = None \<Longrightarrow> Cancel h w = (None, h, w)"
  by (simp add: Cancel_def)
lemma Cancel_err: "fst (Cancel h w) = None"
  by (simp add: Cancel_def split: option.splits)
lemma Cancel_active: "active (fst (snd (Cancel h w))) = None"
  by (simp add: Cancel_def split: option.splits)
lemma Cancel_twice: "Cancel (fst (snd (Cancel h w))) (snd (snd (Cancel h w))) = (None, fst (snd (Cancel h w)), snd (snd (Cancel h w)))"
  by (simp add: Cancel_None Cancel_active)

lemma begin_mem:
  "CompileToMemory_begin c t h w =
     (length (jobs w),
      h\<lparr>active := Some (length (jobs w))\<rparr>,
      w\<lparr>cancelled := cancelled w @ (case active h of None \<Rightarrow> [] | Some j \<Rightarrow> [j]),
        jobs := jobs w @ [\<lparr>tempFile = ''memory'', startTime = t, memoryBytes = None\<rparr>]\<rparr>)"
  by (simp add: CompileToMemory_begin_def cancel_active_def install_def split: option.splits)

lemma begin_disk:
  "CompileProgram_begin c tn ts h w =
     (length (jobs w),
      h\<lparr>active := Some (length (jobs w))\<rparr>,
      w\<lparr>cancelled := cancelled w @ (case active h of None \<Rightarrow> [] | Some j \<Rightarrow> [j]),
        jobs := jobs w @ [\<lparr>tempFile = OutName c @ ''_temp_'' @ show_int tn @ Extension c, startTime = ts, memoryBytes = None\<rparr>]\<rparr>)"
  by (simp add: CompileProgram_begin_def cancel_active_def install_def split: option.splits)

lemma wf_step: "wf_state s \<Longrightarrow> wf_state (step c ev s)"
  by (cases s; cases ev)
     (auto simp: wf_state_def step_def begin_mem begin_disk Cancel_def clear_if_active_def list_all_iff
           split: option.splits)

lemma run_Cons: "run c (ev # evs) s = run c evs (step c ev s)"
  by (simp add: run_def)

lemma wf_run: "wf_state s \<Longrightarrow> wf_state (run c evs s)"
  by (induction evs arbitrary: s) (simp_all add: run_Cons wf_step, simp add: run_def)


text \<open>
  C10.  When the \<^verbatim>\<open>Config\<close> that the caller passes to \<^verbatim>\<open>New\<close> has a zero \<^verbatim>\<open>Timeout\<close>,
  \<^verbatim>\<open>New\<close> returns a builder whose \<^verbatim>\<open>config\<close> is the caller's pointer, and the object
  at that pointer is the caller's \<^verbatim>\<open>Config\<close> with \<^verbatim>\<open>Timeout\<close> set to 5 seconds
  (5000000000 ns) and every other field as it was; no other \<^verbatim>\<open>Config\<close> object
  changes, and nothing else in the world does.  An invocation that reads this
  \<^verbatim>\<open>Config\<close> afterwards runs with the 5 seconds: a memory compilation whose deadline
  elapses reports them.
\<close>

theorem New_default_timeout:
  assumes "configs w p = Some c" and "Timeout c = 0"
  shows "\<exists>h w'. New p w = Some (h, w')
           \<and> config h = p
           \<and> configs w' p = Some (c\<lparr>Timeout := 5 * Second\<rparr>)
           \<and> 5 * Second = 5000000000
           \<and> (\<forall>q. q \<noteq> p \<longrightarrow> configs w' q = configs w q)
           \<and> w' = w\<lparr>configs := (configs w)(p \<mapsto> c\<lparr>Timeout := 5 * Second\<rparr>)\<rparr>
           \<and> (\<forall>t r h1 w1. ctx_after r = DeadlineExceeded \<longrightarrow>
                 fst (CompileToMemory (c\<lparr>Timeout := 5 * Second\<rparr>) t r h1 w1)
                   = Inl (TimedOut 5000000000))"
  using assms by (simp add: New_def Second_def CompileToMemory_deadline)

theorem New_default_timeout_witness:
  "\<exists>h w'. New 0 (example_world\<lparr>configs := [0 \<mapsto> example_config\<lparr>Timeout := 0\<rparr>]\<rparr>) = Some (h, w')
      \<and> config h = 0
      \<and> map_option Timeout (configs w' 0) = Some 5000000000
      \<and> map_option Env (configs w' 0) = Some [''GOOS=js'']"
proof -
  let ?c = "example_config\<lparr>Timeout := 0\<rparr>"
  let ?w = "example_world\<lparr>configs := [0 \<mapsto> ?c]\<rparr>"
  have a: "configs ?w 0 = Some ?c" by simp
  have b: "Timeout ?c = 0" by simp
  from New_default_timeout[OF a b]
  obtain h w' where "New 0 ?w = Some (h, w')" "config h = 0"
      "configs w' 0 = Some (?c\<lparr>Timeout := 5 * Second\<rparr>)"
    by blast
  then show ?thesis by (simp add: Second_def example_config_def)
qed

text \<open>
  C9.  \<^verbatim>\<open>Cancel\<close> with an active job calls that job's cancel function and clears the
  reference in the same step, whatever the process does (it takes no result of the
  process); with no active job it returns \<^verbatim>\<open>nil\<close> and leaves builder and world as
  they are.  It returns \<^verbatim>\<open>nil\<close> in both cases, \<^verbatim>\<open>IsCompiling\<close> is false afterwards,
  and a second \<^verbatim>\<open>Cancel\<close> right after the first changes nothing.
\<close>

theorem Cancel_idempotent:
  "(\<forall>j. active h = Some j \<longrightarrow>
        Cancel h w = (None, h\<lparr>active := None\<rparr>, w\<lparr>cancelled := cancelled w @ [j]\<rparr>))
   \<and> (active h = None \<longrightarrow> Cancel h w = (None, h, w))
   \<and> fst (Cancel h w) = None
   \<and> \<not> IsCompiling (fst (snd (Cancel h w)))
   \<and> Cancel (fst (snd (Cancel h w))) (snd (snd (Cancel h w)))
        = (None, fst (snd (Cancel h w)), snd (snd (Cancel h w)))
   \<and> \<not> IsCompiling (fst (snd (Cancel (fst (snd (Cancel h w))) (snd (snd (Cancel h w))))))"
  by (simp add: Cancel_Some Cancel_None Cancel_err Cancel_twice Cancel_active IsCompiling_def)

theorem Cancel_idempotent_witness:
  "IsCompiling (example_builder\<lparr>active := Some 0\<rparr>)
   \<and> cancelled (snd (snd (Cancel (example_builder\<lparr>active := Some 0\<rparr>) example_world))) = [0]
   \<and> \<not> IsCompiling (fst (snd (Cancel (example_builder\<lparr>active := Some 0\<rparr>) example_world)))
   \<and> Cancel example_builder example_world = (None, example_builder, example_world)"
proof -
  let ?h = "example_builder\<lparr>active := Some 0\<rparr>"
  have a: "active ?h = Some 0" by simp
  have b: "active example_builder = None" by (simp add: example_builder_def)
  have "Cancel ?h example_world
          = (None, ?h\<lparr>active := None\<rparr>, example_world\<lparr>cancelled := cancelled example_world @ [0]\<rparr>)"
    using Cancel_idempotent[of ?h example_world] a by blast
  moreover have "Cancel example_builder example_world = (None, example_builder, example_world)"
    using Cancel_idempotent[of example_builder example_world] b by blast
  ultimately show ?thesis
    by (simp add: IsCompiling_def example_world_def)
qed

text \<open>
  C4.  In every state that a sequence of locked sections (requests beginning, jobs
  completing, \<^verbatim>\<open>Cancel\<close>, \<^verbatim>\<open>IsCompiling\<close>) reaches from a well-formed state: at most
  one job is referenced as active, and it is an allocated job; a request that begins
  calls the cancel function of the job that was active (if any) and installs its own
  job, at a fresh address that differs from the active job's and from every cancelled
  job's; a completing job clears the reference exactly when the reference is its own
  address, so the completion of any other job leaves the builder as it is.
\<close>

theorem single_active_job:
  assumes "wf_state s0" and "run c evs s0 = (h, w)"
  shows "card (active_jobs h) \<le> 1
         \<and> wf_state (h, w)
         \<and> (\<forall>j. active h = Some j \<longrightarrow> j < length (jobs w))
         \<and> (\<forall>t. CompileToMemory_begin c t h w =
                (length (jobs w),
                 h\<lparr>active := Some (length (jobs w))\<rparr>,
                 w\<lparr>cancelled := cancelled w @ (case active h of None \<Rightarrow> [] | Some j \<Rightarrow> [j]),
                   jobs := jobs w @ [\<lparr>tempFile = ''memory'', startTime = t, memoryBytes = None\<rparr>]\<rparr>))
         \<and> (\<forall>tn ts. CompileProgram_begin c tn ts h w =
                (length (jobs w),
                 h\<lparr>active := Some (length (jobs w))\<rparr>,
                 w\<lparr>cancelled := cancelled w @ (case active h of None \<Rightarrow> [] | Some j \<Rightarrow> [j]),
                   jobs := jobs w @ [\<lparr>tempFile = OutName c @ ''_temp_'' @ show_int tn @ Extension c,
                                     startTime = ts, memoryBytes = None\<rparr>]\<rparr>))
         \<and> active h \<noteq> Some (length (jobs w))
         \<and> (\<forall>j \<in> set (cancelled w). j \<noteq> length (jobs w))
         \<and> (\<forall>j. active (clear_if_active j h) = (if active h = Some j then None else active h))
         \<and> (\<forall>j k. active h = Some k \<and> j \<noteq> k \<longrightarrow>
                fst (step c (JobCompletes j) (h, w)) = h)"
proof -
  have wf: "wf_state (h, w)" using wf_run[OF assms(1), of c evs] assms(2) by simp
  have one: "card (active_jobs h) \<le> 1"
    by (simp add: active_jobs_def split: option.splits)
  have alloc: "\<forall>j. active h = Some j \<longrightarrow> j < length (jobs w)"
    using wf by (auto simp: wf_state_def)
  have fresh: "active h \<noteq> Some (length (jobs w))" using alloc by auto
  have old: "\<forall>j \<in> set (cancelled w). j \<noteq> length (jobs w)"
    using wf by (auto simp: wf_state_def list_all_iff)
  have compl: "\<forall>j. active (clear_if_active j h) = (if active h = Some j then None else active h)"
    by (simp add: clear_if_active_def)
  have keep: "\<forall>j k. active h = Some k \<and> j \<noteq> k \<longrightarrow> fst (step c (JobCompletes j) (h, w)) = h"
    by (simp add: step_def clear_if_active_def)
  show ?thesis
    using one wf alloc fresh old compl keep begin_mem[of c _ h w] begin_disk[of c _ _ h w]
    by (intro conjI) blast+
qed

theorem single_active_job_witness:
  "active (fst (run example_config [CompileToMemoryBegins 1, CompileProgramBegins 2 3]
                  (example_builder, example_world))) = Some 1
   \<and> cancelled (snd (run example_config [CompileToMemoryBegins 1, CompileProgramBegins 2 3]
                  (example_builder, example_world))) = [0]
   \<and> active (fst (step example_config (JobCompletes 0)
        (run example_config [CompileToMemoryBegins 1, CompileProgramBegins 2 3]
           (example_builder, example_world)))) = Some 1"
proof -
  let ?s0 = "(example_builder, example_world)"
  let ?evs = "[CompileToMemoryBegins 1, CompileProgramBegins 2 3]"
  obtain h w where hw: "run example_config ?evs ?s0 = (h, w)" by (cases "run example_config ?evs ?s0")
  have wf0: "wf_state ?s0" by (simp add: wf_state_def example_builder_def example_world_def)
  have act: "active h = Some 1" and canc: "cancelled w = [0]"
    using hw by (auto simp: run_def step_def begin_mem begin_disk example_builder_def example_world_def)
  have "\<forall>j k. active h = Some k \<and> j \<noteq> k \<longrightarrow> fst (step example_config (JobCompletes j) (h, w)) = h"
    using single_active_job[OF wf0 hw] by blast
  then have "fst (step example_config (JobCompletes 0) (h, w)) = h" using act by simp
  then show ?thesis using hw act canc by simp
qed


section \<open>The two compilation paths\<close>

lemma digit_char_simps:
  "digit_char 0 = CHR ''0''" "digit_char 1 = CHR ''1''" "digit_char (Suc 0) = CHR ''1''"
  "digit_char 2 = CHR ''2''" "digit_char 3 = CHR ''3''" "digit_char 4 = CHR ''4''"
  "digit_char 5 = CHR ''5''" "digit_char 6 = CHR ''6''" "digit_char 7 = CHR ''7''"
  "digit_char 8 = CHR ''8''" "digit_char 9 = CHR ''9''"
  by code_simp+

lemmas show_simps = show_int_def show_nat.simps digit_char_simps

lemmas path_simps = outputPath_def FinalOutputPath_def path_Join_def path_Clean_def
  path_IsAbs_def clean_step_def strings_HasPrefix_def

lemma CompileToMemory_launched:
  "launched (snd (snd (CompileToMemory c t r h w))) =
     launched w @ [\<lparr>cmd_Path = Command c, cmd_Args = buildArguments c ''/dev/stdout'',
                    cmd_Dir = AppRootDir c, cmd_Env = Some (environ w)\<rparr>]"
  by (simp add: CompileToMemory_def begin_mem log_def Let_def split: option.splits)

lemma compileSync_launched:
  "launched (snd (compileSync c r h job w)) =
     launched w @ [\<lparr>cmd_Path = Command c, cmd_Args = buildArguments c (tempFile job),
                    cmd_Dir = OutFolderRelativePath c,
                    cmd_Env = (if length (Env c) > 0 then Some (environ w @ Env c) else None)\<rparr>]"
  by (simp add: compileSync_def cleanupTempFile_def renameOutputFile_def Let_def split: option.splits)

lemma CompileProgram_sync:
  "\<not> Callback c \<Longrightarrow>
   CompileProgram c tn ts r h w =
     (fst (compileSync c r (h\<lparr>active := Some (length (jobs w))\<rparr>)
             \<lparr>tempFile = OutName c @ ''_temp_'' @ show_int tn @ Extension c, startTime = ts,
               memoryBytes = None\<rparr>
             (w\<lparr>cancelled := cancelled w @ (case active h of None \<Rightarrow> [] | Some j \<Rightarrow> [j]),
                jobs := jobs w @ [\<lparr>tempFile = OutName c @ ''_temp_'' @ show_int tn @ Extension c,
                                  startTime = ts, memoryBytes = None\<rparr>]\<rparr>)),
      h\<lparr>active := None\<rparr>,
      snd (compileSync c r (h\<lparr>active := Some (length (jobs w))\<rparr>)
             \<lparr>tempFile = OutName c @ ''_temp_'' @ show_int tn @ Extension c, startTime = ts,
               memoryBytes = None\<rparr>
             (w\<lparr>cancelled := cancelled w @ (case active h of None \<Rightarrow> [] | Some j \<Rightarrow> [j]),
                jobs := jobs w @ [\<lparr>tempFile = OutName c @ ''_temp_'' @ show_int tn @ Extension c,
                                  startTime = ts, memoryBytes = None\<rparr>]\<rparr>)))"
  by (simp add: CompileProgram_def begin_disk clear_if_active_def case_prod_beta)

lemma CompileToMemory_active:
  "active (fst (snd (CompileToMemory c t r h w))) = None"
  by (simp add: CompileToMemory_def begin_mem clear_if_active_def Let_def split: option.splits)

lemma CompileToMemory_files:
  "files (snd (snd (CompileToMemory c t r h w))) = files_after r"
  by (simp add: CompileToMemory_def begin_mem log_def Let_def split: option.splits)

lemma CompileToMemory_outFileName:
  "outFileName (fst (snd (CompileToMemory c t r h w))) = outFileName h"
  by (simp add: CompileToMemory_def begin_mem clear_if_active_def Let_def split: option.splits)

lemma CompileToMemory_success:
  "run_err r = None \<Longrightarrow> ctx_after r \<noteq> DeadlineExceeded \<Longrightarrow>
   fst (CompileToMemory c t r h w) = Inr (stdout_of r)"
  by (simp add: CompileToMemory_def Let_def split: prod.splits)

lemma CompileToMemory_failure:
  "run_err r = Some e \<Longrightarrow> ctx_after r \<noteq> DeadlineExceeded \<Longrightarrow>
   fst (CompileToMemory c t r h w) = Inl (CompilationFailed e (stderr_of r))"
  by (simp add: CompileToMemory_def Let_def split: prod.splits)

lemma getBinaryBytes_after_CompileToMemory:
  "getBinaryBytes c (fst (snd (CompileToMemory c t r h w))) (snd (snd (CompileToMemory c t r h w)))
     = files_after r (FinalOutputPath c h)"
  by (simp add: getBinaryBytes_def CompileToMemory_active CompileToMemory_files
      FinalOutputPath_def CompileToMemory_outFileName)

text \<open>
  C1.  The code at a concrete input: a memory compilation that succeeds with the three
  bytes \<^verbatim>\<open>BIN\<close> on standard output returns exactly these bytes; but afterwards, with
  no file at the final output path, \<^verbatim>\<open>getBinaryBytes\<close> returns \<^verbatim>\<open>nil\<close> and
  \<^verbatim>\<open>BinarySize\<close> returns \<^verbatim>\<open>0.0 KB\<close>: the returned buffer is not what the accessor
  reads (\<^verbatim>\<open>memoryBytes\<close> is never assigned, and the active reference is cleared
  before \<^verbatim>\<open>CompileToMemory\<close> returns).
\<close>

theorem CompileToMemory_binary_not_queryable:
  "fst (CompileToMemory example_config 7 ok_run example_builder example_world) = Inr ''BIN''
   \<and> getBinaryBytes example_config
        (fst (snd (CompileToMemory example_config 7 ok_run example_builder example_world)))
        (snd (snd (CompileToMemory example_config 7 ok_run example_builder example_world)))
       = None
   \<and> GoBuild_BinarySize example_config
        (fst (snd (CompileToMemory example_config 7 ok_run example_builder example_world)))
        (snd (snd (CompileToMemory example_config 7 ok_run example_builder example_world)))
       = ''0.0 KB''"
proof -
  have r: "run_err ok_run = None" "ctx_after ok_run \<noteq> DeadlineExceeded"
      "stdout_of ok_run = ''BIN''" "files_after ok_run = Map.empty"
    by (simp_all add: ok_run_def stdout_of_def)
  show ?thesis
    by (simp add: CompileToMemory_success r GoBuild_BinarySize_def BinarySize_def
        getBinaryBytes_after_CompileToMemory len_def)
qed

text \<open>
  C3.  The code at a concrete input: with \<^verbatim>\<open>Env = ["GOOS=js"]\<close> in the configuration
  and \<^verbatim>\<open>HOME=/root\<close> as the environment of the process, \<^verbatim>\<open>CompileToMemory\<close> launches
  the command in the root directory \<^verbatim>\<open>/proj\<close> with the inherited environment only,
  while the disk path launches its command with the configured override appended.
\<close>

theorem CompileToMemory_ignores_Env:
  "Env example_config = [''GOOS=js'']
   \<and> launched (snd (snd (CompileToMemory example_config 7 ok_run example_builder example_world)))
       = [\<lparr>cmd_Path = ''go'', cmd_Args = [''build'', ''-o'', ''/dev/stdout'', ''main.go''],
           cmd_Dir = ''/proj'', cmd_Env = Some [''HOME=/root'']\<rparr>]
   \<and> launched (snd (snd (CompileProgram example_config 1700 7 built_run example_builder example_world)))
       = [\<lparr>cmd_Path = ''go'', cmd_Args = [''build'', ''-o'', ''build/app_temp_1700.wasm'', ''main.go''],
           cmd_Dir = ''build'', cmd_Env = Some [''HOME=/root'', ''GOOS=js'']\<rparr>]"
proof -
  have c: "Env example_config = [''GOOS=js'']" "Command example_config = ''go''"
      "AppRootDir example_config = ''/proj''" "OutFolderRelativePath example_config = ''build''"
      "CompilingArguments example_config = None" "\<not> Callback example_config"
      "MainInputFileRelativePath example_config = ''main.go''"
      "OutName example_config = ''app''" "Extension example_config = ''.wasm''"
    by (simp_all add: example_config_def)
  have w: "launched example_world = []" "environ example_world = [''HOME=/root'']"
      "jobs example_world = []"
    by (simp_all add: example_world_def)
  have mem: "launched (snd (snd (CompileToMemory example_config 7 ok_run example_builder example_world)))
       = [\<lparr>cmd_Path = ''go'', cmd_Args = [''build'', ''-o'', ''/dev/stdout'', ''main.go''],
           cmd_Dir = ''/proj'', cmd_Env = Some [''HOME=/root'']\<rparr>]"
    by (simp add: CompileToMemory_launched c w buildArguments_None outputPath_def path_IsAbs_def)
  have disk: "launched (snd (snd (CompileProgram example_config 1700 7 built_run example_builder example_world)))
       = [\<lparr>cmd_Path = ''go'', cmd_Args = [''build'', ''-o'', ''build/app_temp_1700.wasm'', ''main.go''],
           cmd_Dir = ''build'', cmd_Env = Some [''HOME=/root'', ''GOOS=js'']\<rparr>]"
    by (simp add: CompileProgram_sync c w compileSync_launched buildArguments_None
        path_simps show_simps)
  show ?thesis using c(1) mem disk by simp
qed


lemma compileSync_failure:
  "run_err r = Some e \<Longrightarrow>
   fst (compileSync c r h job w) =
     Some (BuildFailed (''compileSync build failed: '' @ e
        @ (if combined_of r = [] then [] else '' '' @ combined_of r)))"
  by (simp add: compileSync_def Let_def)

lemma compileSync_failure_files:
  "run_err r = Some e \<Longrightarrow>
   files (snd (compileSync c r h job w)) = (files_after r)(outputPath c (tempFile job) := None)"
  by (simp add: compileSync_def cleanupTempFile_def Let_def)

lemma compileSync_success:
  "run_err r = None \<Longrightarrow>
   compileSync c r h job w =
     renameOutputFile c h (tempFile job)
       (w\<lparr>launched := launched w @
             [\<lparr>cmd_Path = Command c, cmd_Args = buildArguments c (tempFile job),
               cmd_Dir = OutFolderRelativePath c,
               cmd_Env = (if length (Env c) > 0 then Some (environ w @ Env c) else None)\<rparr>],
          files := files_after r\<rparr>)"
  by (simp add: compileSync_def Let_def)

lemma compileSync_callbacks: "callbacks (snd (compileSync c r h job w)) = callbacks w"
  by (simp add: compileSync_def cleanupTempFile_def renameOutputFile_def Let_def split: option.splits)

lemma renameOutputFile_Some:
  "files w (outputPath c t) = Some b \<Longrightarrow>
   fst (renameOutputFile c h t w) = None
   \<and> files (snd (renameOutputFile c h t w)) (FinalOutputPath c h) = Some b
   \<and> (outputPath c t \<noteq> FinalOutputPath c h \<longrightarrow>
        files (snd (renameOutputFile c h t w)) (outputPath c t) = None)"
  by (simp add: renameOutputFile_def Let_def)

lemma renameOutputFile_None:
  "files w (outputPath c t) = None \<Longrightarrow>
   renameOutputFile c h t w = (Some (RenameFailed (outputPath c t) (FinalOutputPath c h)), w)"
  by (simp add: renameOutputFile_def Let_def)

text \<open>
  C7.  When the run of the external process ends with an error (a non-zero exit or a
  failed invocation), \<^verbatim>\<open>compileSync\<close> returns the build error whose message is
  \<^verbatim>\<open>compileSync build failed: \<close>, the text of the error and, after a space, the
  combined output when there is any; the temporary artifact is gone from the files when
  it returns, and no other file is touched.  When the run succeeds, what \<^verbatim>\<open>compileSync\<close>
  returns is what the rename of the temporary artifact to the final output path
  returns: no error and the artifact's bytes at the final path when the artifact is
  there, and otherwise the rename error, which is not a build failure.
\<close>

theorem compileSync_outcomes:
  "(\<forall>e. run_err r = Some e \<longrightarrow>
      fst (compileSync c r h job w) =
        Some (BuildFailed (''compileSync build failed: '' @ e
           @ (if combined_of r = [] then [] else '' '' @ combined_of r)))
      \<and> files (snd (compileSync c r h job w)) (outputPath c (tempFile job)) = None
      \<and> (\<forall>p. p \<noteq> outputPath c (tempFile job) \<longrightarrow>
            files (snd (compileSync c r h job w)) p = files_after r p))
   \<and> (run_err r = None \<longrightarrow>
        compileSync c r h job w =
          renameOutputFile c h (tempFile job)
            (w\<lparr>launched := launched w @
                  [\<lparr>cmd_Path = Command c, cmd_Args = buildArguments c (tempFile job),
                    cmd_Dir = OutFolderRelativePath c,
                    cmd_Env = (if length (Env c) > 0 then Some (environ w @ Env c) else None)\<rparr>],
               files := files_after r\<rparr>))
   \<and> (\<forall>b. run_err r = None \<and> files_after r (outputPath c (tempFile job)) = Some b \<longrightarrow>
        fst (compileSync c r h job w) = None
        \<and> files (snd (compileSync c r h job w)) (FinalOutputPath c h) = Some b)
   \<and> (run_err r = None \<and> files_after r (outputPath c (tempFile job)) = None \<longrightarrow>
        fst (compileSync c r h job w)
          = Some (RenameFailed (outputPath c (tempFile job)) (FinalOutputPath c h))
        \<and> \<not> is_build_failure (RenameFailed (outputPath c (tempFile job)) (FinalOutputPath c h))
        \<and> files (snd (compileSync c r h job w)) = files_after r)"
proof -
  have fail: "\<forall>e. run_err r = Some e \<longrightarrow>
      fst (compileSync c r h job w) =
        Some (BuildFailed (''compileSync build failed: '' @ e
           @ (if combined_of r = [] then [] else '' '' @ combined_of r)))
      \<and> files (snd (compileSync c r h job w)) (outputPath c (tempFile job)) = None
      \<and> (\<forall>p. p \<noteq> outputPath c (tempFile job) \<longrightarrow>
            files (snd (compileSync c r h job w)) p = files_after r p)"
    by (simp add: compileSync_failure compileSync_failure_files)
  have ok: "run_err r = None \<longrightarrow>
        compileSync c r h job w =
          renameOutputFile c h (tempFile job)
            (w\<lparr>launched := launched w @
                  [\<lparr>cmd_Path = Command c, cmd_Args = buildArguments c (tempFile job),
                    cmd_Dir = OutFolderRelativePath c,
                    cmd_Env = (if length (Env c) > 0 then Some (environ w @ Env c) else None)\<rparr>],
               files := files_after r\<rparr>)"
    by (simp add: compileSync_success)
  have renamed: "\<forall>b. run_err r = None \<and> files_after r (outputPath c (tempFile job)) = Some b \<longrightarrow>
        fst (compileSync c r h job w) = None
        \<and> files (snd (compileSync c r h job w)) (FinalOutputPath c h) = Some b"
    by (simp add: compileSync_success renameOutputFile_Some)
  have norename: "run_err r = None \<and> files_after r (outputPath c (tempFile job)) = None \<longrightarrow>
        fst (compileSync c r h job w)
          = Some (RenameFailed (outputPath c (tempFile job)) (FinalOutputPath c h))
        \<and> \<not> is_build_failure (RenameFailed (outputPath c (tempFile job)) (FinalOutputPath c h))
        \<and> files (snd (compileSync c r h job w)) = files_after r"
    by (simp add: compileSync_success renameOutputFile_None)
  show ?thesis using fail ok renamed norename by (intro conjI)
qed

theorem compileSync_outcomes_witness:
  "fst (compileSync example_config failed_run example_builder
          \<lparr>tempFile = ''app_temp_1700.wasm'', startTime = 7, memoryBytes = None\<rparr> example_world)
     = Some (BuildFailed ''compileSync build failed: exit status 1 syntax error'')
   \<and> files_after failed_run ''build/app_temp_1700.wasm'' = Some ''part''
   \<and> files (snd (compileSync example_config failed_run example_builder
          \<lparr>tempFile = ''app_temp_1700.wasm'', startTime = 7, memoryBytes = None\<rparr> example_world))
        ''build/app_temp_1700.wasm'' = None
   \<and> fst (compileSync example_config built_run example_builder
          \<lparr>tempFile = ''app_temp_1700.wasm'', startTime = 7, memoryBytes = None\<rparr> example_world)
     = None
   \<and> files (snd (compileSync example_config built_run example_builder
          \<lparr>tempFile = ''app_temp_1700.wasm'', startTime = 7, memoryBytes = None\<rparr> example_world))
        ''build/app.wasm'' = Some ''BIN''"
proof -
  let ?job = "\<lparr>tempFile = ''app_temp_1700.wasm'', startTime = 7, memoryBytes = None\<rparr>"
  have tmp: "outputPath example_config (tempFile ?job) = ''build/app_temp_1700.wasm''"
    by (simp add: path_simps example_config_def)
  have fin: "FinalOutputPath example_config example_builder = ''build/app.wasm''"
    by (simp add: path_simps example_config_def example_builder_def)
  have f: "run_err failed_run = Some ''exit status 1''" "combined_of failed_run = ''syntax error''"
      "files_after failed_run ''build/app_temp_1700.wasm'' = Some ''part''"
    by (simp_all add: failed_run_def combined_of_def)
  have b: "run_err built_run = None"
      "files_after built_run ''build/app_temp_1700.wasm'' = Some ''BIN''"
    by (simp_all add: built_run_def)
  note failed = compileSync_outcomes[of failed_run example_config example_builder ?job example_world]
  note built = compileSync_outcomes[of built_run example_config example_builder ?job example_world]
  have 1: "fst (compileSync example_config failed_run example_builder ?job example_world)
     = Some (BuildFailed ''compileSync build failed: exit status 1 syntax error'')"
    using failed f by simp
  have 2: "files (snd (compileSync example_config failed_run example_builder ?job example_world))
        ''build/app_temp_1700.wasm'' = None"
    using failed f tmp by simp
  have 3: "fst (compileSync example_config built_run example_builder ?job example_world) = None
     \<and> files (snd (compileSync example_config built_run example_builder ?job example_world))
        ''build/app.wasm'' = Some ''BIN''"
  proof -
    have "\<forall>b. run_err built_run = None
            \<and> files_after built_run (outputPath example_config (tempFile ?job)) = Some b \<longrightarrow>
          fst (compileSync example_config built_run example_builder ?job example_world) = None
          \<and> files (snd (compileSync example_config built_run example_builder ?job example_world))
               (FinalOutputPath example_config example_builder) = Some b"
      using built by blast
    then show ?thesis using b tmp fin by simp
  qed
  show ?thesis using 1 2 3 f(3) by simp
qed

text \<open>
  C2, as stated, fails on the disk path: a run that the deadline kills makes
  \<^verbatim>\<open>CompileProgram\<close> return the build error of \<^verbatim>\<open>compileSync\<close>, which is the
  build-failure kind and not a timeout.
\<close>

theorem disk_deadline_is_build_failure:
  "ctx_after killed_run = DeadlineExceeded
   \<and> run_err killed_run = Some ''signal: killed''
   \<and> \<not> Callback example_config
   \<and> fst (CompileProgram example_config 1700 7 killed_run example_builder example_world)
       = Some (BuildFailed ''compileSync build failed: signal: killed'')
   \<and> \<not> is_timeout (BuildFailed ''compileSync build failed: signal: killed'')
   \<and> is_build_failure (BuildFailed ''compileSync build failed: signal: killed'')"
proof -
  have k: "ctx_after killed_run = DeadlineExceeded" "run_err killed_run = Some ''signal: killed''"
      "combined_of killed_run = []"
    by (simp_all add: killed_run_def combined_of_def)
  have c: "\<not> Callback example_config" by (simp add: example_config_def)
  show ?thesis
    by (simp add: k c CompileProgram_sync compileSync_failure[OF k(2)])
qed

text \<open>
  C2, amended.  When the deadline of the compilation's context has elapsed, the memory
  path returns the timeout error, which is not a build failure, and no bytes.  On the
  disk path, the run that the deadline killed ends with an error \<open>e\<close>, and
  \<^verbatim>\<open>compileSync\<close> (so \<^verbatim>\<open>CompileProgram\<close> without a callback, and the callback of the
  goroutine otherwise) gets the build error with the message
  \<^verbatim>\<open>compileSync build failed: \<close> followed by \<open>e\<close> and the output: a failure, never a
  success, and of the same kind as any other failed build.
\<close>

theorem deadline_never_success:
  assumes "ctx_after r = DeadlineExceeded"
  shows "fst (CompileToMemory c t r h w) = Inl (TimedOut (Timeout c))
         \<and> is_timeout (TimedOut (Timeout c))
         \<and> \<not> is_build_failure (TimedOut (Timeout c))
         \<and> (\<forall>e. run_err r = Some e \<longrightarrow>
              fst (compileSync c r h job w) =
                Some (BuildFailed (''compileSync build failed: '' @ e
                   @ (if combined_of r = [] then [] else '' '' @ combined_of r)))
              \<and> (\<not> Callback c \<longrightarrow>
                    fst (CompileProgram c tn ts r h w) =
                      Some (BuildFailed (''compileSync build failed: '' @ e
                         @ (if combined_of r = [] then [] else '' '' @ combined_of r))))
              \<and> callbacks (snd (CompileProgram_goroutine c r j h w)) =
                    callbacks w @ [Some (BuildFailed (''compileSync build failed: '' @ e
                         @ (if combined_of r = [] then [] else '' '' @ combined_of r)))])"
proof -
  have mem: "fst (CompileToMemory c t r h w) = Inl (TimedOut (Timeout c))"
    by (rule CompileToMemory_deadline[OF assms])
  have disk: "\<forall>e. run_err r = Some e \<longrightarrow>
              fst (compileSync c r h job w) =
                Some (BuildFailed (''compileSync build failed: '' @ e
                   @ (if combined_of r = [] then [] else '' '' @ combined_of r)))
              \<and> (\<not> Callback c \<longrightarrow>
                    fst (CompileProgram c tn ts r h w) =
                      Some (BuildFailed (''compileSync build failed: '' @ e
                         @ (if combined_of r = [] then [] else '' '' @ combined_of r))))
              \<and> callbacks (snd (CompileProgram_goroutine c r j h w)) =
                    callbacks w @ [Some (BuildFailed (''compileSync build failed: '' @ e
                         @ (if combined_of r = [] then [] else '' '' @ combined_of r)))]"
    by (simp add: compileSync_failure CompileProgram_sync CompileProgram_goroutine_def
        compileSync_callbacks case_prod_beta)
  show ?thesis using mem disk by simp
qed

theorem deadline_never_success_witness:
  "fst (CompileToMemory example_config 7 killed_run example_builder example_world)
     = Inl (TimedOut 5000000000)
   \<and> fst (compileSync example_config killed_run example_builder
            \<lparr>tempFile = ''app_temp_1700.wasm'', startTime = 7, memoryBytes = None\<rparr> example_world)
     = Some (BuildFailed ''compileSync build failed: signal: killed'')"
proof -
  have k: "ctx_after killed_run = DeadlineExceeded" "run_err killed_run = Some ''signal: killed''"
      "combined_of killed_run = []"
    by (simp_all add: killed_run_def combined_of_def)
  have t: "Timeout example_config = 5000000000" by (simp add: example_config_def Second_def)
  show ?thesis
    using deadline_never_success[OF k(1), of example_config 7 example_builder example_world
        "\<lparr>tempFile = ''app_temp_1700.wasm'', startTime = 7, memoryBytes = None\<rparr>"] k t
    by simp
qed


section \<open>The size formatter\<close>

lemma digit_char_digit: "d < 10 \<Longrightarrow> digit_char d \<in> set ''0123456789''"
proof -
  assume "d < 10"
  then have "d = 0 \<or> d = 1 \<or> d = 2 \<or> d = 3 \<or> d = 4 \<or> d = 5 \<or> d = 6 \<or> d = 7 \<or> d = 8 \<or> d = 9"
    by arith
  then show ?thesis by (auto simp: digit_char_simps)
qed

lemma show_nat_digits: "show_nat m \<noteq> [] \<and> set (show_nat m) \<subseteq> set ''0123456789''"
proof (induction m rule: show_nat.induct)
  case (1 n)
  show ?case
  proof (cases "n < 10")
    case True
    then show ?thesis using digit_char_digit[of n] by (simp add: show_nat.simps[of n])
  next
    case False
    have "n mod 10 < 10" by simp
    then show ?thesis using False 1 digit_char_digit[of "n mod 10"]
      by (simp add: show_nat.simps[of n])
  qed
qed

lemma float64_small: "n < 2 ^ 53 \<Longrightarrow> float64_of_nat n = n"
  by (simp add: float64_of_nat_def)

lemma float64_large:
  assumes "\<not> n < 2 ^ 53"
  shows "2 ^ 53 \<le> float64_of_nat n"
proof -
  define b where "b = nat (bitlen (int n))"
  define sh where "sh = b - 53"
  have npos: "0 < int n" using assms by simp
  from bitlen_bounds[OF npos]
  have lo: "2 ^ nat (bitlen (int n) - 1) \<le> int n" and hi: "int n < 2 ^ nat (bitlen (int n))"
    by simp_all
  have hi': "n < 2 ^ b" using hi unfolding b_def
    by (metis of_nat_less_iff of_nat_numeral of_nat_power)
  have b53: "53 < b"
  proof (rule ccontr)
    assume "\<not> 53 < b"
    then have "b \<le> 53" by simp
    then have "(2::nat) ^ b \<le> 2 ^ 53" by (intro power_increasing) simp_all
    then show False using assms hi' by linarith
  qed
  have "nat (bitlen (int n) - 1) = b - 1" unfolding b_def by simp
  then have "(2::int) ^ (b - 1) \<le> int n" using lo by simp
  then have lo': "2 ^ (b - 1) \<le> n"
    by (metis of_nat_le_iff of_nat_numeral of_nat_power)
  define K :: nat where "K = 2 ^ 52"
  have split: "b - 1 = 52 + sh" using b53 by (simp add: sh_def)
  have e: "(2::nat) ^ (b - 1) = K * 2 ^ sh" unfolding split K_def by (rule power_add)
  have "K * 2 ^ sh \<le> n" using lo' by (simp only: e)
  then have "(K * 2 ^ sh) div 2 ^ sh \<le> n div 2 ^ sh" by (rule div_le_mono)
  then have q: "K \<le> n div 2 ^ sh" by simp
  have sh1: "1 \<le> sh" using b53 by (simp add: sh_def)
  have "(2::nat) ^ 1 \<le> 2 ^ sh" using sh1 by (intro power_increasing) simp_all
  then have "K * 2 \<le> K * 2 ^ sh" by simp
  also have "\<dots> \<le> (n div 2 ^ sh) * 2 ^ sh" using q by (rule mult_le_mono1)
  finally have "K * 2 \<le> (n div 2 ^ sh) * 2 ^ sh" .
  moreover have "K * 2 = 2 ^ 53" by (simp add: K_def)
  ultimately have base: "2 ^ 53 \<le> (n div 2 ^ sh) * 2 ^ sh" by simp
  have "(n div 2 ^ sh) * 2 ^ sh \<le> float64_of_nat n"
    using assms by (simp add: float64_of_nat_def Let_def sh_def b_def)
  then show ?thesis using base by linarith
qed

lemma float64_ge_iff:
  assumes "u \<le> 2 ^ 53"
  shows "u \<le> float64_of_nat n \<longleftrightarrow> u \<le> n"
proof (cases "n < 2 ^ 53")
  case True
  then show ?thesis by (simp add: float64_small)
next
  case False
  then have "u \<le> n" using assms by simp
  moreover have "u \<le> float64_of_nat n" using float64_large[OF False] assms by simp
  ultimately show ?thesis by simp
qed

lemma format_1f_shape:
  assumes "0 < u"
  shows "\<exists>m d. d < 10 \<and> format_1f sz u = show_nat m @ ''.'' @ [digit_char d]
     \<and> (u \<le> sz \<longrightarrow> 1 \<le> m)
     \<and> 2 * (10 * sz - u * (10 * m + d)) \<le> u
     \<and> 2 * (u * (10 * m + d) - 10 * sz) \<le> u"
proof -
  define q where "q = (10 * sz) div u"
  define r where "r = (10 * sz) mod u"
  define tenths where "tenths = (if 2 * r > u \<or> (2 * r = u \<and> odd q) then q + 1 else q)"
  have f: "format_1f sz u = show_nat (tenths div 10) @ ''.'' @ [digit_char (tenths mod 10)]"
    by (simp add: format_1f_def Let_def tenths_def q_def r_def)
  have d: "tenths mod 10 < 10" by simp
  have m: "u \<le> sz \<longrightarrow> 1 \<le> tenths div 10"
  proof
    assume a: "u \<le> sz"
    then have "(10 * u) div u \<le> (10 * sz) div u" by (intro div_le_mono) simp
    then have "10 \<le> q" using assms by (simp add: q_def)
    then have "10 \<le> tenths" by (simp add: tenths_def)
    then show "1 \<le> tenths div 10" by simp
  qed
  have t: "10 * sz = u * q + r" by (simp add: q_def r_def)
  have r: "r < u" using assms by (simp add: r_def)
  have recomp: "10 * (tenths div 10) + tenths mod 10 = tenths" by simp
  have near: "2 * (10 * sz - u * tenths) \<le> u \<and> 2 * (u * tenths - 10 * sz) \<le> u"
  proof (cases "2 * r > u \<or> (2 * r = u \<and> odd q)")
    case True
    then have "tenths = q + 1" by (simp add: tenths_def)
    then have "u * tenths = u * q + u" by simp
    then show ?thesis using t r True by auto
  next
    case False
    then have "tenths = q" by (simp add: tenths_def)
    then show ?thesis using t r False by auto
  qed
  have near': "2 * (10 * sz - u * (10 * (tenths div 10) + tenths mod 10)) \<le> u
      \<and> 2 * (u * (10 * (tenths div 10) + tenths mod 10) - 10 * sz) \<le> u"
    unfolding recomp by (rule near)
  show ?thesis using f d m near' by blast
qed

lemma BinarySize_shape:
  assumes "0 < len (f s)"
  shows "\<exists>m d u name. d < 10
         \<and> (u, name) = (if GB \<le> len (f s) then (GB, ''GB'')
                        else if MB \<le> len (f s) then (MB, ''MB'') else (KB, ''KB''))
         \<and> BinarySize (Some f) s = show_nat m @ ''.'' @ [digit_char d] @ '' '' @ name
         \<and> (MB \<le> len (f s) \<longrightarrow> 1 \<le> m)
         \<and> (len (f s) < 2 ^ 53 \<longrightarrow>
               2 * (10 * len (f s) - u * (10 * m + d)) \<le> u
               \<and> 2 * (u * (10 * m + d) - 10 * len (f s)) \<le> u)"
proof -
  let ?n = "len (f s)"
  let ?sz = "float64_of_nat ?n"
  have gb: "GB \<le> ?sz \<longleftrightarrow> GB \<le> ?n" by (rule float64_ge_iff) (simp add: GB_def)
  have mb: "MB \<le> ?sz \<longleftrightarrow> MB \<le> ?n" by (rule float64_ge_iff) (simp add: MB_def)
  have exact: "?n < 2 ^ 53 \<longrightarrow> ?sz = ?n" using float64_small by blast
  have gbmb: "MB \<le> GB" by (simp add: MB_def GB_def)
  consider (G) "GB \<le> ?n" | (M) "\<not> GB \<le> ?n" "MB \<le> ?n" | (K) "\<not> GB \<le> ?n" "\<not> MB \<le> ?n"
    by blast
  then show ?thesis
  proof cases
    case G
    have u: "0 < GB" by (simp add: GB_def)
    from format_1f_shape[OF u, of ?sz] obtain m d where
      md: "d < 10" "format_1f ?sz GB = show_nat m @ ''.'' @ [digit_char d]"
        "GB \<le> ?sz \<longrightarrow> 1 \<le> m"
        "2 * (10 * ?sz - GB * (10 * m + d)) \<le> GB \<and> 2 * (GB * (10 * m + d) - 10 * ?sz) \<le> GB"
      by blast
    have bs: "BinarySize (Some f) s = format_1f ?sz GB @ '' GB''"
      using assms G gb mb by (simp add: BinarySize_def Let_def)
    have c2: "(GB, ''GB'') = (if GB \<le> ?n then (GB, ''GB'')
                        else if MB \<le> ?n then (MB, ''MB'') else (KB, ''KB''))"
      using G by simp
    have c3: "BinarySize (Some f) s = show_nat m @ ''.'' @ [digit_char d] @ '' '' @ ''GB''"
      using bs md(2) by simp
    have c4: "MB \<le> ?n \<longrightarrow> 1 \<le> m"
      using md(3) G gb mb gbmb by simp
    have c5: "?n < 2 ^ 53 \<longrightarrow>
               2 * (10 * ?n - GB * (10 * m + d)) \<le> GB
               \<and> 2 * (GB * (10 * m + d) - 10 * ?n) \<le> GB"
    proof
      assume "?n < 2 ^ 53"
      then have eq: "?sz = ?n" by (rule float64_small)
      show "2 * (10 * ?n - GB * (10 * m + d)) \<le> GB
               \<and> 2 * (GB * (10 * m + d) - 10 * ?n) \<le> GB"
        using md(4) unfolding eq .
    qed
    show ?thesis using md(1) c2 c3 c4 c5 by blast
  next
    case M
    have u: "0 < MB" by (simp add: MB_def)
    from format_1f_shape[OF u, of ?sz] obtain m d where
      md: "d < 10" "format_1f ?sz MB = show_nat m @ ''.'' @ [digit_char d]"
        "MB \<le> ?sz \<longrightarrow> 1 \<le> m"
        "2 * (10 * ?sz - MB * (10 * m + d)) \<le> MB \<and> 2 * (MB * (10 * m + d) - 10 * ?sz) \<le> MB"
      by blast
    have bs: "BinarySize (Some f) s = format_1f ?sz MB @ '' MB''"
      using assms M gb mb by (simp add: BinarySize_def Let_def)
    have c2: "(MB, ''MB'') = (if GB \<le> ?n then (GB, ''GB'')
                        else if MB \<le> ?n then (MB, ''MB'') else (KB, ''KB''))"
      using M by simp
    have c3: "BinarySize (Some f) s = show_nat m @ ''.'' @ [digit_char d] @ '' '' @ ''MB''"
      using bs md(2) by simp
    have c4: "MB \<le> ?n \<longrightarrow> 1 \<le> m"
      using md(3) M gb mb gbmb by simp
    have c5: "?n < 2 ^ 53 \<longrightarrow>
               2 * (10 * ?n - MB * (10 * m + d)) \<le> MB
               \<and> 2 * (MB * (10 * m + d) - 10 * ?n) \<le> MB"
    proof
      assume "?n < 2 ^ 53"
      then have eq: "?sz = ?n" by (rule float64_small)
      show "2 * (10 * ?n - MB * (10 * m + d)) \<le> MB
               \<and> 2 * (MB * (10 * m + d) - 10 * ?n) \<le> MB"
        using md(4) unfolding eq .
    qed
    show ?thesis using md(1) c2 c3 c4 c5 by blast
  next
    case K
    have u: "0 < KB" by (simp add: KB_def)
    from format_1f_shape[OF u, of ?sz] obtain m d where
      md: "d < 10" "format_1f ?sz KB = show_nat m @ ''.'' @ [digit_char d]"
        "KB \<le> ?sz \<longrightarrow> 1 \<le> m"
        "2 * (10 * ?sz - KB * (10 * m + d)) \<le> KB \<and> 2 * (KB * (10 * m + d) - 10 * ?sz) \<le> KB"
      by blast
    have bs: "BinarySize (Some f) s = format_1f ?sz KB @ '' KB''"
      using assms K gb mb by (simp add: BinarySize_def Let_def)
    have c2: "(KB, ''KB'') = (if GB \<le> ?n then (GB, ''GB'')
                        else if MB \<le> ?n then (MB, ''MB'') else (KB, ''KB''))"
      using K by simp
    have c3: "BinarySize (Some f) s = show_nat m @ ''.'' @ [digit_char d] @ '' '' @ ''KB''"
      using bs md(2) by simp
    have c4: "MB \<le> ?n \<longrightarrow> 1 \<le> m"
      using md(3) K gb mb gbmb by simp
    have c5: "?n < 2 ^ 53 \<longrightarrow>
               2 * (10 * ?n - KB * (10 * m + d)) \<le> KB
               \<and> 2 * (KB * (10 * m + d) - 10 * ?n) \<le> KB"
    proof
      assume "?n < 2 ^ 53"
      then have eq: "?sz = ?n" by (rule float64_small)
      show "2 * (10 * ?n - KB * (10 * m + d)) \<le> KB
               \<and> 2 * (KB * (10 * m + d) - 10 * ?n) \<le> KB"
        using md(4) unfolding eq .
    qed
    show ?thesis using md(1) c2 c3 c4 c5 by blast
  qed
qed

lemma BinarySize_unavailable:
  "BinarySize None s = ''0.0 KB''" "len (f s) = 0 \<Longrightarrow> BinarySize (Some f) s = ''0.0 KB''"
  by (simp_all add: BinarySize_def)

lemma BinarySize_below_MB:
  "len (f s) = 1024 * 1024 - 1 \<Longrightarrow> BinarySize (Some f) s = ''1024.0 KB''"
  by (simp add: BinarySize_def float64_of_nat_def format_1f_def GB_def MB_def KB_def show_simps)

lemma BinarySize_at_MB:
  "len (f s) = 1024 * 1024 \<Longrightarrow> BinarySize (Some f) s = ''1.0 MB''"
  by (simp add: BinarySize_def float64_of_nat_def format_1f_def GB_def MB_def KB_def show_simps)

text \<open>
  C8.  \<^verbatim>\<open>BinarySize\<close> returns \<^verbatim>\<open>0.0 KB\<close> when no accessor is set, and when the accessor
  returns \<^verbatim>\<open>nil\<close> or an empty slice (length 0).  For a binary of \<open>n > 0\<close> bytes it
  returns a decimal numeral, a point, one decimal digit, a space and a unit, where the
  unit is \<^verbatim>\<open>GB\<close> when \<open>n \<ge> 1024\<^sup>3\<close>, else \<^verbatim>\<open>MB\<close> when \<open>n \<ge> 1024\<^sup>2\<close>, else \<^verbatim>\<open>KB\<close>;
  in \<^verbatim>\<open>MB\<close> and \<^verbatim>\<open>GB\<close> the numeral before the point is at least 1; and (for a length
  that a \<^verbatim>\<open>float64\<close> holds exactly) the printed tenths are within half a tenth of
  \<open>n\<close> divided by the unit.  \<open>1024 * 1024 - 1\<close> bytes give \<^verbatim>\<open>1024.0 KB\<close> and
  \<open>1024 * 1024\<close> bytes give \<^verbatim>\<open>1.0 MB\<close>.
\<close>

theorem BinarySize_format:
  "BinarySize None s = ''0.0 KB''
   \<and> len None = 0 \<and> len (Some []) = 0
   \<and> (len (f s) = 0 \<longrightarrow> BinarySize (Some f) s = ''0.0 KB'')
   \<and> (0 < len (f s) \<longrightarrow>
        (\<exists>m d u name. d < 10
           \<and> (u, name) = (if GB \<le> len (f s) then (GB, ''GB'')
                          else if MB \<le> len (f s) then (MB, ''MB'') else (KB, ''KB''))
           \<and> BinarySize (Some f) s = show_nat m @ ''.'' @ [digit_char d] @ '' '' @ name
           \<and> (MB \<le> len (f s) \<longrightarrow> 1 \<le> m)
           \<and> (len (f s) < 2 ^ 53 \<longrightarrow>
                 2 * (10 * len (f s) - u * (10 * m + d)) \<le> u
                 \<and> 2 * (u * (10 * m + d) - 10 * len (f s)) \<le> u)))
   \<and> (\<forall>m. show_nat m \<noteq> [] \<and> set (show_nat m) \<subseteq> set ''0123456789'')
   \<and> (\<forall>d. d < 10 \<longrightarrow> digit_char d \<in> set ''0123456789'')
   \<and> KB = 1024 \<and> MB = 1024 * 1024 \<and> GB = 1024 * 1024 * 1024
   \<and> (len (f s) = 1024 * 1024 - 1 \<longrightarrow> BinarySize (Some f) s = ''1024.0 KB'')
   \<and> (len (f s) = 1024 * 1024 \<longrightarrow> BinarySize (Some f) s = ''1.0 MB'')"
proof -
  have shape: "0 < len (f s) \<longrightarrow>
        (\<exists>m d u name. d < 10
           \<and> (u, name) = (if GB \<le> len (f s) then (GB, ''GB'')
                          else if MB \<le> len (f s) then (MB, ''MB'') else (KB, ''KB''))
           \<and> BinarySize (Some f) s = show_nat m @ ''.'' @ [digit_char d] @ '' '' @ name
           \<and> (MB \<le> len (f s) \<longrightarrow> 1 \<le> m)
           \<and> (len (f s) < 2 ^ 53 \<longrightarrow>
                 2 * (10 * len (f s) - u * (10 * m + d)) \<le> u
                 \<and> 2 * (u * (10 * m + d) - 10 * len (f s)) \<le> u))"
    using BinarySize_shape[of f s] by blast
  have digits: "\<forall>m. show_nat m \<noteq> [] \<and> set (show_nat m) \<subseteq> set ''0123456789''"
    using show_nat_digits by blast
  have digit: "\<forall>d. d < 10 \<longrightarrow> digit_char d \<in> set ''0123456789''"
    using digit_char_digit by blast
  have units: "KB = 1024 \<and> MB = 1024 * 1024 \<and> GB = 1024 * 1024 * 1024"
    by (simp add: KB_def MB_def GB_def)
  have lens: "len None = 0 \<and> len (Some []) = 0" by (simp add: len_def)
  have below: "len (f s) = 1024 * 1024 - 1 \<longrightarrow> BinarySize (Some f) s = ''1024.0 KB''"
    using BinarySize_below_MB[of f s] by blast
  have at: "len (f s) = 1024 * 1024 \<longrightarrow> BinarySize (Some f) s = ''1.0 MB''"
    using BinarySize_at_MB[of f s] by blast
  show ?thesis
    using BinarySize_unavailable(1)[of s] BinarySize_unavailable(2)[of f s]
      lens shape digits digit units below at
    by (intro conjI) blast+
qed

theorem BinarySize_format_witness:
  "BinarySize (Some (\<lambda>u::unit. Some (replicate (1024 * 1024) (CHR ''a'')))) () = ''1.0 MB''
   \<and> BinarySize (Some (\<lambda>u::unit. Some (replicate (1024 * 1024 - 1) (CHR ''a'')))) () = ''1024.0 KB''
   \<and> BinarySize (Some (\<lambda>u::unit. Some [])) () = ''0.0 KB''
   \<and> BinarySize (Some (\<lambda>u::unit. None)) () = ''0.0 KB''"
proof -
  have a: "len (Some (replicate (1024 * 1024) (CHR ''a''))) = 1024 * 1024"
    by (simp add: len_def)
  have b: "len (Some (replicate (1024 * 1024 - 1) (CHR ''a''))) = 1024 * 1024 - 1"
    by (simp add: len_def)
  have c: "len (Some []) = 0" "len None = 0"
    by (simp_all add: len_def)
  have "len (Some (replicate (1024 * 1024) (CHR ''a''))) = 1024 * 1024 \<longrightarrow>
      BinarySize (Some (\<lambda>u::unit. Some (replicate (1024 * 1024) (CHR ''a'')))) () = ''1.0 MB''"
    using BinarySize_format[of "()" "\<lambda>u::unit. Some (replicate (1024 * 1024) (CHR ''a''))"]
    by (elim conjE) assumption
  then have 1: "BinarySize (Some (\<lambda>u::unit. Some (replicate (1024 * 1024) (CHR ''a'')))) ()
      = ''1.0 MB''"
    using a by (rule mp)
  have "len (Some (replicate (1024 * 1024 - 1) (CHR ''a''))) = 1024 * 1024 - 1 \<longrightarrow>
      BinarySize (Some (\<lambda>u::unit. Some (replicate (1024 * 1024 - 1) (CHR ''a'')))) ()
        = ''1024.0 KB''"
    using BinarySize_format[of "()" "\<lambda>u::unit. Some (replicate (1024 * 1024 - 1) (CHR ''a''))"]
    by (elim conjE) assumption
  then have 2: "BinarySize (Some (\<lambda>u::unit. Some (replicate (1024 * 1024 - 1) (CHR ''a'')))) ()
      = ''1024.0 KB''"
    using b by (rule mp)
  have "len (Some []) = 0 \<longrightarrow> BinarySize (Some (\<lambda>u::unit. Some [])) () = ''0.0 KB''"
    using BinarySize_format[of "()" "\<lambda>u::unit. Some []"]
    by (elim conjE) assumption
  then have 3: "BinarySize (Some (\<lambda>u::unit. Some [])) () = ''0.0 KB''"
    using c(1) by (rule mp)
  have "len None = 0 \<longrightarrow> BinarySize (Some (\<lambda>u::unit. None)) () = ''0.0 KB''"
    using BinarySize_format[of "()" "\<lambda>u::unit. None"]
    by (elim conjE) assumption
  then have 4: "BinarySize (Some (\<lambda>u::unit. None)) () = ''0.0 KB''"
    using c(2) by (rule mp)
  show ?thesis using 1 2 3 4 by (intro conjI)
qed


end
